theory Spec2Isabelle
  imports Main
begin

unbundle bit_operations_syntax

section \<open>The settings loader of sqlc: \<^verbatim>\<open>internal/config/config.go\<close>\<close>

text \<open>
  Go strings are byte sequences, and so are HOL strings (\<^typ>\<open>char list\<close>).
  A method with a pointer receiver that returns an \<^verbatim>\<open>error\<close> is a function from the
  receiver to the updated receiver and an optional error; a run-time panic is a
  separate outcome. What a call writes to standard error is returned beside the
  outcome, as the list of the lines written.
\<close>

subsection \<open>The functions of the Go standard library that the code calls\<close>

text \<open>
  \<^verbatim>\<open>strings.LastIndex(s, sep)\<close> for a separator of one byte: the index of its last
  occurrence in \<open>s\<close>, or \<open>-1\<close>.
\<close>

fun LastIndex :: "string \<Rightarrow> char \<Rightarrow> int" where
  "LastIndex [] c = - 1"
| "LastIndex (x # xs) c =
     (let i = LastIndex xs c
      in if i \<noteq> - 1 then i + 1 else if x = c then 0 else - 1)"

text \<open>
  \<^verbatim>\<open>strings.Split(s, sep)\<close> for a separator of one byte: the pieces between the
  occurrences of \<open>sep\<close>, one more than there are occurrences.
\<close>

fun Split :: "string \<Rightarrow> char \<Rightarrow> string list" where
  "Split [] c = [[]]"
| "Split (x # xs) c =
     (let parts = Split xs c
      in if x = c then [] # parts else (x # hd parts) # tl parts)"

definition HasPrefix :: "string \<Rightarrow> string \<Rightarrow> bool" where
  "HasPrefix s p = (length p \<le> length s \<and> take (length p) s = p)"

definition HasSuffix :: "string \<Rightarrow> string \<Rightarrow> bool" where
  "HasSuffix s p = (length p \<le> length s \<and> drop (length s - length p) s = p)"

text \<open>
  \<^verbatim>\<open>filepath.Base\<close> on a system whose separator is \<open>/\<close> and whose paths have no
  volume name: the empty path gives \<open>.\<close>, trailing separators are dropped, the part
  after the last separator is kept, and a path of separators only gives \<open>/\<close>.
\<close>

function strip_trailing :: "string \<Rightarrow> string" where
  "strip_trailing p =
     (if p \<noteq> [] \<and> last p = CHR ''/'' then strip_trailing (butlast p) else p)"
  by pat_completeness auto
termination
  by (relation "measure length") auto

declare strip_trailing.simps [simp del]

function last_separator :: "string \<Rightarrow> int \<Rightarrow> int" where
  "last_separator p i =
     (if 0 \<le> i \<and> p ! nat i \<noteq> CHR ''/'' then last_separator p (i - 1) else i)"
  by pat_completeness auto
termination
  by (relation "measure (\<lambda>(p, i). nat (i + 1))") auto

declare last_separator.simps [simp del]

definition Base :: "string \<Rightarrow> string" where
  "Base path =
     (if path = [] then ''.''
      else let p = strip_trailing path;
               i = last_separator p (int (length p) - 1);
               q = (if 0 \<le> i then drop (nat (i + 1)) p else p)
           in if q = [] then ''/'' else q)"

text \<open>
  \<^verbatim>\<open>types.Typ\<close> of \<^verbatim>\<open>go/types\<close>: the table of the predeclared basic types,
  each with its \<^verbatim>\<open>BasicInfo\<close> flags and its name. The flags are bits:
  \<^verbatim>\<open>IsBoolean\<close> 1, \<^verbatim>\<open>IsInteger\<close> 2, \<^verbatim>\<open>IsUnsigned\<close> 4, \<^verbatim>\<open>IsFloat\<close> 8, \<^verbatim>\<open>IsComplex\<close> 16,
  \<^verbatim>\<open>IsString\<close> 32, \<^verbatim>\<open>IsUntyped\<close> 64. The table belongs to the Go distribution.
\<close>

record Basic =
  info :: int
  name :: string

definition IsUntyped :: int where
  "IsUntyped = 64"

definition Typ :: "Basic list" where
  "Typ =
    [\<lparr>info = 0, name = ''invalid type''\<rparr>,
     \<lparr>info = 1, name = ''bool''\<rparr>,
     \<lparr>info = 2, name = ''int''\<rparr>,
     \<lparr>info = 2, name = ''int8''\<rparr>,
     \<lparr>info = 2, name = ''int16''\<rparr>,
     \<lparr>info = 2, name = ''int32''\<rparr>,
     \<lparr>info = 2, name = ''int64''\<rparr>,
     \<lparr>info = 6, name = ''uint''\<rparr>,
     \<lparr>info = 6, name = ''uint8''\<rparr>,
     \<lparr>info = 6, name = ''uint16''\<rparr>,
     \<lparr>info = 6, name = ''uint32''\<rparr>,
     \<lparr>info = 6, name = ''uint64''\<rparr>,
     \<lparr>info = 6, name = ''uintptr''\<rparr>,
     \<lparr>info = 8, name = ''float32''\<rparr>,
     \<lparr>info = 8, name = ''float64''\<rparr>,
     \<lparr>info = 16, name = ''complex64''\<rparr>,
     \<lparr>info = 16, name = ''complex128''\<rparr>,
     \<lparr>info = 32, name = ''string''\<rparr>,
     \<lparr>info = 0, name = ''unsafe.Pointer''\<rparr>,
     \<lparr>info = 65, name = ''untyped bool''\<rparr>,
     \<lparr>info = 66, name = ''untyped int''\<rparr>,
     \<lparr>info = 66, name = ''untyped rune''\<rparr>,
     \<lparr>info = 72, name = ''untyped float''\<rparr>,
     \<lparr>info = 80, name = ''untyped complex''\<rparr>,
     \<lparr>info = 96, name = ''untyped string''\<rparr>,
     \<lparr>info = 64, name = ''untyped nil''\<rparr>]"

subsection \<open>The data model\<close>

type_synonym Engine = string

definition EngineMySQL :: Engine where
  "EngineMySQL = ''mysql''"

definition EnginePostgreSQL :: Engine where
  "EnginePostgreSQL = ''postgresql''"

text \<open>
  Modelled from the spec: \<^verbatim>\<open>pg.FQN\<close>, the table reference, is declared in the
  package \<^verbatim>\<open>internal/pg\<close>; the spec gives it a catalog (optional), a schema and a
  relation name, and the code sets the fields \<^verbatim>\<open>Catalog\<close>, \<^verbatim>\<open>Schema\<close> and \<^verbatim>\<open>Rel\<close>.
  A field left out of a composite literal is the empty string.
\<close>

record FQN =
  Catalog :: string
  Schema :: string
  Rel :: string

record Override =
  GoType :: string
  DBType :: string
  Deprecated_PostgresType :: string
  Engine :: Engine
  Null :: bool
  Column :: string
  ColumnName :: string
  Table :: FQN
  GoTypeName :: string
  GoPackage :: string
  GoBasicType :: bool

record PackageSettings =
  Name :: string
  Engine :: Engine
  Path :: string
  Schema :: string
  Queries :: string
  EmitInterface :: bool
  EmitJSONTags :: bool
  EmitPreparedQueries :: bool
  Overrides :: "Override list"

record GenerateSettings =
  Version :: string
  Packages :: "PackageSettings list"
  Overrides :: "Override list"
  Rename :: "string \<rightharpoonup> string"

record CombinedSettings =
  Global :: GenerateSettings
  Package :: PackageSettings
  Overrides :: "Override list"

subsection \<open>Errors, panics and outcomes\<close>

text \<open>
  One constructor for each error value the file makes. The five \<^verbatim>\<open>errors.New\<close>
  values keep their names. The \<^verbatim>\<open>fmt.Errorf\<close> values have no name in the source;
  each is named here after its message and carries the strings the message quotes:
  \<^item> \<open>EngineRequired\<close>: \<^verbatim>\<open>the "engine" field is required for global type overrides
    because your configuration uses multiple database engines\<close>;
  \<^item> \<open>DBTypeWithPostgresType\<close>: \<^verbatim>\<open>Type override configurations cannot have "db_type"
    and "postres_type" together. Use "db_type" alone\<close>;
  \<^item> \<open>ColumnWithDBType\<close>: \<^verbatim>\<open>Override specifying both `column` (%q) and `db_type` (%q)
    is not valid.\<close>;
  \<^item> \<open>ColumnOrDBTypeMissing\<close>: \<^verbatim>\<open>Override must specify one of either `column` or
    `db_type`\<close>;
  \<^item> \<open>ColumnFormat\<close>: \<^verbatim>\<open>Override `column` specifier %q is not the proper format,
    expected '[catalog.][schema.]colname.tablename'\<close>;
  \<^item> \<open>NotBasicType\<close>: \<^verbatim>\<open>Package override `go_type` specifier %q is not a Go basic
    type e.g. 'string'\<close>;
  \<^item> \<open>GoTypeFormat\<close>: \<^verbatim>\<open>Package override `go_type` specifier %q is not the proper
    format, expected 'package.type', e.g. 'github.com/segmentio/ksuid.KSUID'\<close>;
  \<^item> \<open>DecodeError\<close>: whatever error the JSON decoder returned.
\<close>

datatype error =
    ErrMissingVersion
  | ErrUnknownVersion
  | ErrNoPackages
  | ErrNoPackageName
  | ErrNoPackagePath
  | EngineRequired
  | DBTypeWithPostgresType
  | ColumnWithDBType string string
  | ColumnOrDBTypeMissing
  | ColumnFormat string
  | NotBasicType string
  | GoTypeFormat string
  | DecodeError string

datatype panic = IndexOutOfRange | SliceBoundsOutOfRange

text \<open>
  \<open>Return v e\<close>: the call returned, leaving the value \<open>v\<close> and the error \<open>e\<close>
  (\<open>None\<close> for \<^verbatim>\<open>nil\<close>). \<open>Panic p\<close>: the call panicked.
\<close>

datatype 'a outcome = Return 'a "error option" | Panic panic


text \<open>
  \<^verbatim>\<open>err.Error()\<close>, the text of each error, as \<^verbatim>\<open>errors.New\<close> and \<^verbatim>\<open>fmt.Errorf\<close> are
  given it in the source. The verb \<^verbatim>\<open>%q\<close> prints its argument as a quoted Go string;
  the quoting is left as the constructor \<open>Quoted\<close>, the literal text is \<open>Lit\<close>.
\<close>

datatype piece = Lit string | Quoted string

fun Error :: "error \<Rightarrow> piece list" where
  \<open>Error ErrMissingVersion = [Lit ''no version number'']\<close>
| \<open>Error ErrUnknownVersion = [Lit ''invalid version number'']\<close>
| \<open>Error ErrNoPackages = [Lit ''no packages'']\<close>
| \<open>Error ErrNoPackageName = [Lit ''missing package name'']\<close>
| \<open>Error ErrNoPackagePath = [Lit ''missing package path'']\<close>
| \<open>Error EngineRequired =
     [Lit ''the "engine" field is required for global type overrides because your configuration uses multiple database engines'']\<close>
| \<open>Error DBTypeWithPostgresType =
     [Lit ''Type override configurations cannot have "db_type" and "postres_type" together. Use "db_type" alone'']\<close>
| \<open>Error (ColumnWithDBType column db_type) =
     [Lit ''Override specifying both `column` ('', Quoted column,
      Lit '') and `db_type` ('', Quoted db_type, Lit '') is not valid.'']\<close>
| \<open>Error ColumnOrDBTypeMissing =
     [Lit ''Override must specify one of either `column` or `db_type`'']\<close>
| \<open>Error (ColumnFormat column) =
     [Lit ''Override `column` specifier '', Quoted column,
      Lit ('' is not the proper format, expected '[catalog.][schema.]colname.tablename'' @
           [CHR 0x27])]\<close>
| \<open>Error (NotBasicType go_type) =
     [Lit ''Package override `go_type` specifier '', Quoted go_type,
      Lit ('' is not a Go basic type e.g. 'string'' @ [CHR 0x27])]\<close>
| \<open>Error (GoTypeFormat go_type) =
     [Lit ''Package override `go_type` specifier '', Quoted go_type,
      Lit ('' is not the proper format, expected 'package.type', e.g. 'github.com/segmentio/ksuid.KSUID'' @
           [CHR 0x27])]\<close>
| \<open>Error (DecodeError text) = [Lit text]\<close>

subsection \<open>\<^verbatim>\<open>ValidateGlobalOverrides\<close>\<close>

text \<open>
  The first loop fills the map \<^verbatim>\<open>engines\<close>, used as a set, with the engine of each
  package; the second returns the error at the first override whose engine is empty,
  when the set has more than one member.
\<close>

fun collect_engines :: "PackageSettings list \<Rightarrow> Engine set \<Rightarrow> Engine set" where
  "collect_engines [] engines = engines"
| "collect_engines (pkg # pkgs) engines =
     collect_engines pkgs
       (if PackageSettings.Engine pkg \<notin> engines
        then insert (PackageSettings.Engine pkg) engines else engines)"

fun check_overrides :: "bool \<Rightarrow> Override list \<Rightarrow> error option" where
  "check_overrides usesMultipleEngines [] = None"
| "check_overrides usesMultipleEngines (oride # orides) =
     (if usesMultipleEngines \<and> Override.Engine oride = []
      then Some EngineRequired
      else check_overrides usesMultipleEngines orides)"

definition ValidateGlobalOverrides :: "GenerateSettings \<Rightarrow> error option" where
  "ValidateGlobalOverrides c =
     (let engines = collect_engines (Packages c) {};
          usesMultipleEngines = (1 < card engines)
      in check_overrides usesMultipleEngines (GenerateSettings.Overrides c))"

subsection \<open>\<^verbatim>\<open>Override.Parse\<close>\<close>

definition deprecation_warning :: string where
  \<open>deprecation_warning =
     ''WARNING: "postgres_type" is deprecated. Instead, use "db_type" to specify a type override.\<newline>''\<close>

text \<open>
  Lines 100 to 107: the deprecated field. The warning is written before the
  check, so it is written on both paths.
\<close>

definition Parse_Deprecated :: "Override \<Rightarrow> string list \<times> Override outcome" where
  "Parse_Deprecated ov =
     (if Deprecated_PostgresType ov \<noteq> [] then
        ([deprecation_warning],
         if DBType ov \<noteq> [] then Return ov (Some DBTypeWithPostgresType)
         else Return (ov\<lparr>DBType := Deprecated_PostgresType ov\<rparr>) None)
      else ([], Return ov None))"

text \<open>Lines 109 to 115: \<^verbatim>\<open>column\<close> and \<^verbatim>\<open>db_type\<close> exclude each other.\<close>

definition Parse_Options :: "Override \<Rightarrow> Override outcome" where
  "Parse_Options ov =
     (if Column ov \<noteq> [] \<and> DBType ov \<noteq> [] then
        Return ov (Some (ColumnWithDBType (Column ov) (DBType ov)))
      else if Column ov = [] \<and> DBType ov = [] then
        Return ov (Some ColumnOrDBTypeMissing)
      else Return ov None)"

text \<open>Lines 117 to 133: the column specifier.\<close>

definition Parse_Column :: "Override \<Rightarrow> Override outcome" where
  "Parse_Column ov =
     (if Column ov \<noteq> [] then
        (let colParts = Split (Column ov) CHR ''.'' in
         if length colParts = 2 then
           Return (ov\<lparr>ColumnName := colParts ! 1,
                     Table := \<lparr>Catalog = [], Schema = ''public'', Rel = colParts ! 0\<rparr>\<rparr>) None
         else if length colParts = 3 then
           Return (ov\<lparr>ColumnName := colParts ! 2,
                     Table := \<lparr>Catalog = [], Schema = colParts ! 0, Rel = colParts ! 1\<rparr>\<rparr>) None
         else if length colParts = 4 then
           Return (ov\<lparr>ColumnName := colParts ! 3,
                     Table := \<lparr>Catalog = colParts ! 0, Schema = colParts ! 1,
                               Rel = colParts ! 2\<rparr>\<rparr>) None
         else Return ov (Some (ColumnFormat (Column ov))))
      else Return ov None)"

text \<open>Lines 141 to 153: is the name that of a typed basic type of \<^verbatim>\<open>types.Typ\<close>?\<close>

fun find_basic :: "Basic list \<Rightarrow> string \<Rightarrow> bool \<Rightarrow> bool" where
  "find_basic [] typename found = found"
| "find_basic (typ # typs) typename found =
     (if info typ = 0 then find_basic typs typename found
      else if info typ AND IsUntyped \<noteq> 0 then find_basic typs typename found
      else if typename = name typ then find_basic typs typename True
      else find_basic typs typename found)"

text \<open>Lines 167 to 176: a leading \<^verbatim>\<open>go-\<close> and then a trailing \<^verbatim>\<open>-go\<close> are cut off.\<close>

definition trim_go :: "string \<Rightarrow> string" where
  "trim_go typename =
     (let t = (if HasPrefix typename ''go-'' then drop (length ''go-'') typename
               else typename)
      in if HasSuffix t ''-go'' then take (length t - length ''-go'') t else t)"

text \<open>
  Lines 179 to 186. \<^verbatim>\<open>o.GoType[0]\<close> panics on the empty string, and
  \<^verbatim>\<open>o.GoPackage[1:]\<close> panics on the empty string.
\<close>

definition isPointer :: "Override \<Rightarrow> bool" where
  "isPointer ov = (GoType ov ! 0 = CHR ''*'')"

definition set_GoTypeName :: "Override \<Rightarrow> string \<Rightarrow> Override outcome" where
  "set_GoTypeName ov typename =
     (let o1 = ov\<lparr>GoTypeName := typename\<rparr> in
      if GoType o1 = [] then Panic IndexOutOfRange
      else
        if isPointer o1 then
          (if GoPackage o1 = [] then Panic SliceBoundsOutOfRange
           else Return (o1\<lparr>GoPackage := drop 1 (GoPackage o1),
                            GoTypeName := ''*'' @ GoTypeName o1\<rparr>) None)
        else Return o1 None)"

text \<open>
  Lines 135 to 186: the type reference. The slices \<^verbatim>\<open>o.GoType[lastSlash+1:]\<close> and
  \<^verbatim>\<open>o.GoType[:lastDot]\<close> are taken where both indices are those of an occurrence,
  so they are in range and \<open>drop\<close> and \<open>take\<close> are what Go computes.
\<close>

definition Parse_GoType :: "Override \<Rightarrow> Override outcome" where
  "Parse_GoType ov =
     (let lastDot = LastIndex (GoType ov) CHR ''.'';
          lastSlash = LastIndex (GoType ov) CHR ''/''
      in if lastDot = - 1 \<and> lastSlash = - 1 then
           (if \<not> find_basic Typ (GoType ov) False
            then Return ov (Some (NotBasicType (GoType ov)))
            else set_GoTypeName (ov\<lparr>GoBasicType := True\<rparr>) (GoType ov))
         else if lastDot = - 1 then Return ov (Some (GoTypeFormat (GoType ov)))
         else if lastSlash = - 1 then Return ov (Some (GoTypeFormat (GoType ov)))
         else set_GoTypeName (ov\<lparr>GoPackage := take (nat lastDot) (GoType ov)\<rparr>)
                (trim_go (drop (nat (lastSlash + 1)) (GoType ov))))"

text \<open>
  The whole method runs the four parts in turn; a part that returns an error, or
  panics, ends the call. \<open>Parse_checks\<close> is lines 100 to 133, all that comes before
  the type reference is looked at. The result of \<open>Parse\<close> is what the call wrote to
  standard error and its outcome.
\<close>

definition and_then :: "'a outcome \<Rightarrow> ('a \<Rightarrow> 'a outcome) \<Rightarrow> 'a outcome" where
  "and_then r f =
     (case r of
        Return v None \<Rightarrow> f v
      | Return v (Some err) \<Rightarrow> Return v (Some err)
      | Panic p \<Rightarrow> Panic p)"

definition Parse_checks :: "Override \<Rightarrow> Override outcome" where
  "Parse_checks ov =
     and_then (and_then (snd (Parse_Deprecated ov)) Parse_Options) Parse_Column"

definition Parse :: "Override \<Rightarrow> string list \<times> Override outcome" where
  "Parse ov = (fst (Parse_Deprecated ov), and_then (Parse_checks ov) Parse_GoType)"

subsection \<open>\<^verbatim>\<open>ParseConfig\<close>\<close>

text \<open>
  \<^verbatim>\<open>for i := range xs { if err := step(&xs[i]); err != nil { return err } }\<close>:
  the elements are updated in place from the first on; the first error stops the loop,
  leaving the later elements as they were.
\<close>

fun range_loop ::
  "('a \<Rightarrow> string list \<times> 'a outcome) \<Rightarrow> 'a list \<Rightarrow> string list \<times> 'a list outcome" where
  "range_loop step [] = ([], Return [] None)"
| "range_loop step (x # xs) =
     (case step x of
        (w, Panic p) \<Rightarrow> (w, Panic p)
      | (w, Return x' (Some err)) \<Rightarrow> (w, Return (x' # xs) (Some err))
      | (w, Return x' None) \<Rightarrow>
          (case range_loop step xs of
             (w', Panic p) \<Rightarrow> (w @ w', Panic p)
           | (w', Return xs' e) \<Rightarrow> (w @ w', Return (x' # xs') e)))"

text \<open>Lines 220 to 233: the body of the loop over the packages.\<close>

definition parse_package :: "PackageSettings \<Rightarrow> string list \<times> PackageSettings outcome" where
  "parse_package pkg =
     (if Path pkg = [] then ([], Return pkg (Some ErrNoPackagePath))
      else
        (case range_loop Parse (PackageSettings.Overrides pkg) of
           (w, Panic p) \<Rightarrow> (w, Panic p)
         | (w, Return os (Some err)) \<Rightarrow>
             (w, Return (pkg\<lparr>PackageSettings.Overrides := os\<rparr>) (Some err))
         | (w, Return os None) \<Rightarrow>
             (let pkg1 = pkg\<lparr>PackageSettings.Overrides := os\<rparr>;
                  pkg2 = (if Name pkg1 = [] then pkg1\<lparr>Name := Base (Path pkg1)\<rparr> else pkg1);
                  pkg3 = (if PackageSettings.Engine pkg2 = []
                          then pkg2\<lparr>PackageSettings.Engine := EnginePostgreSQL\<rparr> else pkg2)
              in (w, Return pkg3 None))))"

text \<open>
  \<^verbatim>\<open>ParseConfig\<close>, from what the JSON decoder left: the decoded settings and the
  decoder's error, if any.
\<close>

definition ParseConfig ::
  "GenerateSettings \<times> error option \<Rightarrow> string list \<times> GenerateSettings outcome" where
  "ParseConfig decoded =
     (case decoded of
        (config, Some err) \<Rightarrow> ([], Return config (Some err))
      | (config, None) \<Rightarrow>
          if Version config = [] then ([], Return config (Some ErrMissingVersion))
          else if Version config \<noteq> ''1'' then ([], Return config (Some ErrUnknownVersion))
          else if length (Packages config) = 0 then ([], Return config (Some ErrNoPackages))
          else
            (case ValidateGlobalOverrides config of
               Some err \<Rightarrow> ([], Return config (Some err))
             | None \<Rightarrow>
                 (case range_loop Parse (GenerateSettings.Overrides config) of
                    (w, Panic p) \<Rightarrow> (w, Panic p)
                  | (w, Return os (Some err)) \<Rightarrow>
                      (w, Return (config\<lparr>GenerateSettings.Overrides := os\<rparr>) (Some err))
                  | (w, Return os None) \<Rightarrow>
                      (case range_loop parse_package (Packages config) of
                         (w', Panic p) \<Rightarrow> (w @ w', Panic p)
                       | (w', Return ps e) \<Rightarrow>
                           (w @ w',
                            Return (config\<lparr>GenerateSettings.Overrides := os,
                                           Packages := ps\<rparr>) e)))))"

subsection \<open>\<^verbatim>\<open>Combine\<close>\<close>

definition Combine :: "GenerateSettings \<Rightarrow> PackageSettings \<Rightarrow> CombinedSettings" where
  "Combine gen pkg =
     \<lparr>Global = gen, Package = pkg,
      CombinedSettings.Overrides =
        GenerateSettings.Overrides gen @ PackageSettings.Overrides pkg\<rparr>"

subsection \<open>Zero values\<close>

text \<open>The zero value of each struct: every field unset.\<close>

definition zero_Override :: Override where
  "zero_Override =
     \<lparr>GoType = [], DBType = [], Deprecated_PostgresType = [], Engine = [], Null = False,
      Column = [], ColumnName = [],
      Table = \<lparr>Catalog = [], Schema = [], Rel = []\<rparr>,
      GoTypeName = [], GoPackage = [], GoBasicType = False\<rparr>"

definition zero_PackageSettings :: PackageSettings where
  "zero_PackageSettings =
     \<lparr>Name = [], Engine = [], Path = [], Schema = [], Queries = [], EmitInterface = False,
      EmitJSONTags = False, EmitPreparedQueries = False, Overrides = []\<rparr>"

definition zero_GenerateSettings :: GenerateSettings where
  "zero_GenerateSettings = \<lparr>Version = [], Packages = [], Overrides = [], Rename = Map.empty\<rparr>"

section \<open>Properties\<close>

subsection \<open>Facts about the library functions\<close>

lemma LastIndex_lower: "- 1 \<le> LastIndex s c"
  by (induction s) (auto simp: Let_def)

lemma LastIndex_none: "(LastIndex s c = - 1) = (c \<notin> set s)"
proof (induction s)
  case Nil
  then show ?case by simp
next
  case (Cons x xs)
  show ?case using Cons.IH LastIndex_lower [of xs c] by (auto simp: Let_def)
qed

lemma LastIndex_upper: "LastIndex s c < int (length s)"
  by (induction s) (auto simp: Let_def)

lemma LastIndex_nth: "LastIndex s c \<noteq> - 1 \<Longrightarrow> s ! nat (LastIndex s c) = c"
proof (induction s)
  case Nil
  then show ?case by simp
next
  case (Cons x xs)
  show ?case
  proof (cases "LastIndex xs c = - 1")
    case True
    with Cons.prems show ?thesis by (simp add: Let_def split: if_splits)
  next
    case False
    have "0 \<le> LastIndex xs c" using False LastIndex_lower [of xs c] by linarith
    then have "nat (LastIndex xs c + 1) = Suc (nat (LastIndex xs c))" by linarith
    with False Cons.IH show ?thesis by (simp add: Let_def)
  qed
qed

lemma LastIndex_last: "LastIndex s c < int i \<Longrightarrow> i < length s \<Longrightarrow> s ! i \<noteq> c"
proof (induction s arbitrary: i)
  case Nil
  then show ?case by simp
next
  case (Cons x xs)
  show ?case
  proof (cases i)
    case 0
    with Cons.prems show ?thesis
      using LastIndex_lower [of xs c] by (auto simp: Let_def split: if_splits)
  next
    case (Suc j)
    with Cons.prems have "LastIndex xs c < int j" "j < length xs"
      by (auto simp: Let_def split: if_splits)
    with Cons.IH Suc show ?thesis by simp
  qed
qed

lemma find_basic_True: "find_basic typs t True"
  by (induction typs) auto

lemma find_basic_Typ:
  "find_basic Typ t False =
     (t \<in> {''bool'', ''int'', ''int8'', ''int16'', ''int32'', ''int64'', ''uint'', ''uint8'',
            ''uint16'', ''uint32'', ''uint64'', ''uintptr'', ''float32'', ''float64'',
            ''complex64'', ''complex128'', ''string''})"
  by (simp add: Typ_def IsUntyped_def find_basic_True)

lemma find_basic_nonempty: "find_basic Typ t False \<Longrightarrow> t \<noteq> [] \<and> t ! 0 \<noteq> CHR ''*''"
  unfolding find_basic_Typ by auto


subsection \<open>\<^verbatim>\<open>Override.Parse\<close> never panics\<close>

lemma set_GoTypeName_basic:
  "GoType ov \<noteq> [] \<Longrightarrow> GoType ov ! 0 \<noteq> CHR ''*'' \<Longrightarrow>
   set_GoTypeName ov t = Return (ov\<lparr>GoTypeName := t\<rparr>) None"
  by (simp add: set_GoTypeName_def isPointer_def)

lemma set_GoTypeName_pointer:
  "GoType ov \<noteq> [] \<Longrightarrow> GoType ov ! 0 = CHR ''*'' \<Longrightarrow> GoPackage ov \<noteq> [] \<Longrightarrow>
   set_GoTypeName ov t =
     Return (ov\<lparr>GoTypeName := ''*'' @ t, GoPackage := drop 1 (GoPackage ov)\<rparr>) None"
  by (simp add: set_GoTypeName_def isPointer_def)

lemma take_LastIndex_nonempty:
  assumes "LastIndex s c \<noteq> - 1" "s ! 0 \<noteq> c"
  shows "take (nat (LastIndex s c)) s \<noteq> []"
proof -
  have "s ! nat (LastIndex s c) = c" using assms(1) by (rule LastIndex_nth)
  with assms(2) have "nat (LastIndex s c) \<noteq> 0" by metis
  moreover have "s \<noteq> []" using assms(1) by (auto simp: LastIndex_none)
  ultimately show ?thesis by simp
qed

lemma Parse_GoType_no_panic: "Parse_GoType ov \<noteq> Panic p"
proof (cases "LastIndex (GoType ov) CHR ''.'' = - 1 \<and> LastIndex (GoType ov) CHR ''/'' = - 1")
  case True
  show ?thesis
  proof (cases "find_basic Typ (GoType ov) False")
    case False
    with True show ?thesis by (simp add: Parse_GoType_def)
  next
    case found: True
    then have "GoType ov \<noteq> []" "GoType ov ! 0 \<noteq> CHR ''*''"
      using find_basic_nonempty by blast+
    with True found show ?thesis
      by (simp add: Parse_GoType_def set_GoTypeName_basic)
  qed
next
  case False
  show ?thesis
  proof (cases "LastIndex (GoType ov) CHR ''.'' = - 1 \<or> LastIndex (GoType ov) CHR ''/'' = - 1")
    case True
    with False show ?thesis by (auto simp add: Parse_GoType_def)
  next
    case both: False
    then have ne: "GoType ov \<noteq> []" by (auto simp: LastIndex_none)
    let ?ov = "ov\<lparr>GoPackage := take (nat (LastIndex (GoType ov) CHR ''.'')) (GoType ov)\<rparr>"
    have eq: "Parse_GoType ov = set_GoTypeName ?ov
        (trim_go (drop (nat (LastIndex (GoType ov) CHR ''/'' + 1)) (GoType ov)))"
      using both by (simp add: Parse_GoType_def)
    show ?thesis
    proof (cases "GoType ov ! 0 = CHR ''*''")
      case True
      then have "GoType ov ! 0 \<noteq> CHR ''.''" by simp
      with both have "GoPackage ?ov \<noteq> []"
        using take_LastIndex_nonempty [of "GoType ov" "CHR ''.''"] by simp
      with ne True show ?thesis
        unfolding eq by (subst set_GoTypeName_pointer) simp_all
    next
      case False
      with ne show ?thesis unfolding eq by (subst set_GoTypeName_basic) simp_all
    qed
  qed
qed

lemma Parse_Column_no_panic: "Parse_Column ov \<noteq> Panic p"
  by (simp add: Parse_Column_def Let_def)

lemma Parse_checks_no_panic: "Parse_checks ov \<noteq> Panic p"
  by (auto simp: Parse_checks_def Parse_Deprecated_def Parse_Options_def and_then_def
      Parse_Column_no_panic split: outcome.splits option.splits)

lemma Parse_no_panic: "snd (Parse ov) \<noteq> Panic p"
  using Parse_checks_no_panic [of ov] Parse_GoType_no_panic
  by (auto simp: Parse_def and_then_def split: outcome.splits option.splits)

subsection \<open>What the earlier parts leave alone\<close>

lemma Parse_checks_fields:
  "Parse_checks ov = Return ov2 e \<Longrightarrow>
   GoType ov2 = GoType ov \<and> GoPackage ov2 = GoPackage ov \<and>
   GoBasicType ov2 = GoBasicType ov \<and> GoTypeName ov2 = GoTypeName ov"
  by (auto simp: Parse_checks_def Parse_Deprecated_def Parse_Options_def Parse_Column_def
      and_then_def Let_def split: if_splits)

lemma Parse_reached:
  "Parse_checks ov = Return ov2 None \<Longrightarrow> snd (Parse ov) = Parse_GoType ov2"
  by (simp add: Parse_def and_then_def)

lemma Parse_GoType_not_basic:
  "\<not> find_basic Typ (GoType ov) False \<Longrightarrow> CHR ''.'' \<notin> set (GoType ov) \<Longrightarrow>
   CHR ''/'' \<notin> set (GoType ov) \<Longrightarrow>
   Parse_GoType ov = Return ov (Some (NotBasicType (GoType ov)))"
  by (simp add: Parse_GoType_def LastIndex_none)

lemma Parse_checks_column_only:
  "Parse_checks (zero_Override\<lparr>GoType := g, Column := ''accounts.id''\<rparr>) =
     Return (zero_Override\<lparr>GoType := g, Column := ''accounts.id'', ColumnName := ''id'',
        Table := \<lparr>Catalog = [], Schema = ''public'', Rel = ''accounts''\<rparr>\<rparr>) None"
  by (simp add: Parse_checks_def Parse_Deprecated_def Parse_Options_def Parse_Column_def
      and_then_def zero_Override_def)

subsection \<open>The empty type reference and the lone pointer sigil\<close>

text \<open>
  C8. \<^verbatim>\<open>Override.Parse\<close> never panics, so \<^verbatim>\<open>o.GoType[0]\<close> is evaluated only on a
  non-empty \<^verbatim>\<open>go_type\<close>. When the call gets as far as the type reference
  (\<open>Parse_checks\<close> returned no error), the empty \<^verbatim>\<open>go_type\<close> is refused with the
  "not a Go basic type" error, and so is the \<^verbatim>\<open>go_type\<close> that is the pointer sigil
  \<^verbatim>\<open>*\<close> alone.
\<close>

theorem Parse_empty_or_sigil:
  "snd (Parse ov) \<noteq> Panic p \<and>
   (Parse_checks ov = Return ov2 None \<longrightarrow> GoType ov = [] \<longrightarrow>
      snd (Parse ov) = Return ov2 (Some (NotBasicType []))) \<and>
   (Parse_checks ov = Return ov2 None \<longrightarrow> GoType ov = ''*'' \<longrightarrow>
      snd (Parse ov) = Return ov2 (Some (NotBasicType ''*'')))"
proof (intro conjI impI)
  show "snd (Parse ov) \<noteq> Panic p" by (rule Parse_no_panic)
next
  assume r: "Parse_checks ov = Return ov2 None" and e: "GoType ov = []"
  from r have g: "GoType ov2 = []" using Parse_checks_fields e by metis
  have "Parse_GoType ov2 = Return ov2 (Some (NotBasicType (GoType ov2)))"
    by (rule Parse_GoType_not_basic) (simp_all add: g find_basic_Typ)
  with r g show "snd (Parse ov) = Return ov2 (Some (NotBasicType []))"
    by (simp add: Parse_reached)
next
  assume r: "Parse_checks ov = Return ov2 None" and e: "GoType ov = ''*''"
  from r have g: "GoType ov2 = ''*''" using Parse_checks_fields e by metis
  have "Parse_GoType ov2 = Return ov2 (Some (NotBasicType (GoType ov2)))"
    by (rule Parse_GoType_not_basic) (simp_all add: g find_basic_Typ)
  with r g show "snd (Parse ov) = Return ov2 (Some (NotBasicType ''*''))"
    by (simp add: Parse_reached)
qed

theorem Parse_empty_or_sigil_witness:
  "snd (Parse (zero_Override\<lparr>GoType := [], Column := ''accounts.id''\<rparr>)) =
     Return (zero_Override\<lparr>GoType := [], Column := ''accounts.id'', ColumnName := ''id'',
        Table := \<lparr>Catalog = [], Schema = ''public'', Rel = ''accounts''\<rparr>\<rparr>)
      (Some (NotBasicType [])) \<and>
   snd (Parse (zero_Override\<lparr>GoType := ''*'', Column := ''accounts.id''\<rparr>)) =
     Return (zero_Override\<lparr>GoType := ''*'', Column := ''accounts.id'', ColumnName := ''id'',
        Table := \<lparr>Catalog = [], Schema = ''public'', Rel = ''accounts''\<rparr>\<rparr>)
      (Some (NotBasicType ''*''))"
  using Parse_empty_or_sigil [of "zero_Override\<lparr>GoType := [], Column := ''accounts.id''\<rparr>"]
    Parse_empty_or_sigil [of "zero_Override\<lparr>GoType := ''*'', Column := ''accounts.id''\<rparr>"]
    Parse_checks_column_only [of "[]"] Parse_checks_column_only [of "''*''"]
  by (simp add: zero_Override_def)

subsection \<open>The type reference\<close>

lemma Parse_GoType_package:
  assumes dot: "CHR ''.'' \<in> set (GoType ov)" and slash: "CHR ''/'' \<in> set (GoType ov)"
  shows "Parse_GoType ov =
     Return (ov\<lparr>GoTypeName :=
                   (if isPointer ov then ''*'' else []) @
                   trim_go (drop (nat (LastIndex (GoType ov) CHR ''/'' + 1)) (GoType ov)),
                GoPackage :=
                   (if isPointer ov
                    then drop 1 (take (nat (LastIndex (GoType ov) CHR ''.'')) (GoType ov))
                    else take (nat (LastIndex (GoType ov) CHR ''.'')) (GoType ov))\<rparr>) None"
proof -
  let ?d = "LastIndex (GoType ov) CHR ''.''" and ?s = "LastIndex (GoType ov) CHR ''/''"
  let ?ov = "ov\<lparr>GoPackage := take (nat ?d) (GoType ov)\<rparr>"
  let ?t = "trim_go (drop (nat (?s + 1)) (GoType ov))"
  from dot slash have both: "?d \<noteq> - 1" "?s \<noteq> - 1" by (simp_all add: LastIndex_none)
  from dot have ne: "GoType ov \<noteq> []" by auto
  have eq: "Parse_GoType ov = set_GoTypeName ?ov ?t"
    using both by (simp add: Parse_GoType_def)
  show ?thesis
  proof (cases "GoType ov ! 0 = CHR ''*''")
    case True
    then have "GoType ov ! 0 \<noteq> CHR ''.''" by simp
    with both have "GoPackage ?ov \<noteq> []"
      using take_LastIndex_nonempty [of "GoType ov" "CHR ''.''"] by simp
    with ne True have "set_GoTypeName ?ov ?t =
        Return (?ov\<lparr>GoTypeName := ''*'' @ ?t, GoPackage := drop 1 (GoPackage ?ov)\<rparr>) None"
      by (intro set_GoTypeName_pointer) simp_all
    with True show ?thesis unfolding eq by (simp add: isPointer_def)
  next
    case False
    with ne have "set_GoTypeName ?ov ?t = Return (?ov\<lparr>GoTypeName := ?t\<rparr>) None"
      by (intro set_GoTypeName_basic) simp_all
    with False show ?thesis unfolding eq by (simp add: isPointer_def)
  qed
qed

lemma Parse_GoType_basic:
  assumes "find_basic Typ (GoType ov) False"
  shows "Parse_GoType ov = Return (ov\<lparr>GoBasicType := True, GoTypeName := GoType ov\<rparr>) None"
proof -
  from assms have n: "CHR ''.'' \<notin> set (GoType ov)" "CHR ''/'' \<notin> set (GoType ov)"
    unfolding find_basic_Typ by auto
  from assms have "GoType ov \<noteq> []" "GoType ov ! 0 \<noteq> CHR ''*''"
    using find_basic_nonempty by blast+
  then have "set_GoTypeName (ov\<lparr>GoBasicType := True\<rparr>) (GoType ov) =
      Return (ov\<lparr>GoBasicType := True, GoTypeName := GoType ov\<rparr>) None"
    by (subst set_GoTypeName_basic) simp_all
  with assms n show ?thesis by (simp add: Parse_GoType_def LastIndex_none)
qed

lemma LastIndex_ksuid:
  "LastIndex ''github.com/segmentio/ksuid.KSUID'' CHR ''.'' = 26"
  "LastIndex ''github.com/segmentio/ksuid.KSUID'' CHR ''/'' = 20"
  "LastIndex ''*github.com/segmentio/ksuid.KSUID'' CHR ''.'' = 27"
  "LastIndex ''*github.com/segmentio/ksuid.KSUID'' CHR ''/'' = 21"
  by simp_all

lemma trim_go_ksuid: "trim_go ''ksuid.KSUID'' = ''ksuid.KSUID''"
  by (simp add: trim_go_def HasPrefix_def HasSuffix_def)

text \<open>
  C1, as the code has it. Take an override whose resolved fields are unset and for which
  the call gets as far as the type reference. For \<^verbatim>\<open>go_type\<close> \<^verbatim>\<open>string\<close> the call
  marks a basic type, leaves the package path empty and sets the type name
  \<^verbatim>\<open>string\<close>. For \<^verbatim>\<open>github.com/segmentio/ksuid.KSUID\<close> the package path is
  \<^verbatim>\<open>github.com/segmentio/ksuid\<close>, the type is not basic, and the type name is all
  that follows the last slash, \<^verbatim>\<open>ksuid.KSUID\<close>. With a leading \<^verbatim>\<open>*\<close> the go_type
  is a pointer, the package path is the same, without the sigil, and the type name is
  \<^verbatim>\<open>*ksuid.KSUID\<close>.
\<close>

theorem Parse_type_reference_examples:
  assumes "Parse_checks ov = Return ov2 None" and "GoPackage ov = []" and "\<not> GoBasicType ov"
  shows "(GoType ov = ''string'' \<longrightarrow>
            snd (Parse ov) = Return (ov2\<lparr>GoBasicType := True, GoTypeName := ''string''\<rparr>) None \<and>
            GoPackage ov2 = [] \<and> \<not> isPointer ov) \<and>
         (GoType ov = ''github.com/segmentio/ksuid.KSUID'' \<longrightarrow>
            snd (Parse ov) = Return (ov2\<lparr>GoTypeName := ''ksuid.KSUID'',
              GoPackage := ''github.com/segmentio/ksuid''\<rparr>) None \<and>
            \<not> GoBasicType ov2 \<and> \<not> isPointer ov) \<and>
         (GoType ov = ''*github.com/segmentio/ksuid.KSUID'' \<longrightarrow>
            snd (Parse ov) = Return (ov2\<lparr>GoTypeName := ''*ksuid.KSUID'',
              GoPackage := ''github.com/segmentio/ksuid''\<rparr>) None \<and>
            \<not> GoBasicType ov2 \<and> isPointer ov)"
proof -
  from assms have f: "GoType ov2 = GoType ov" "GoPackage ov2 = []" "\<not> GoBasicType ov2"
    using Parse_checks_fields [of ov ov2 None] by simp_all
  have p: "snd (Parse ov) = Parse_GoType ov2" using assms(1) by (rule Parse_reached)
  show ?thesis
  proof (intro conjI impI)
    assume g: "GoType ov = ''string''"
    have "find_basic Typ (GoType ov2) False" by (simp add: f g find_basic_Typ)
    then show "snd (Parse ov) = Return (ov2\<lparr>GoBasicType := True, GoTypeName := ''string''\<rparr>) None"
      using f g p by (simp add: Parse_GoType_basic)
    show "GoPackage ov2 = []" by (rule f)
    show "\<not> isPointer ov" by (simp add: g isPointer_def)
  next
    assume g: "GoType ov = ''github.com/segmentio/ksuid.KSUID''"
    have "Parse_GoType ov2 = Return (ov2\<lparr>GoTypeName := ''ksuid.KSUID'',
              GoPackage := ''github.com/segmentio/ksuid''\<rparr>) None"
      by (subst Parse_GoType_package)
        (simp_all add: f g LastIndex_ksuid trim_go_ksuid isPointer_def)
    then show "snd (Parse ov) = Return (ov2\<lparr>GoTypeName := ''ksuid.KSUID'',
              GoPackage := ''github.com/segmentio/ksuid''\<rparr>) None"
      using p by simp
    show "\<not> GoBasicType ov2" by (rule f)
    show "\<not> isPointer ov" by (simp add: g isPointer_def)
  next
    assume g: "GoType ov = ''*github.com/segmentio/ksuid.KSUID''"
    have "Parse_GoType ov2 = Return (ov2\<lparr>GoTypeName := ''*ksuid.KSUID'',
              GoPackage := ''github.com/segmentio/ksuid''\<rparr>) None"
      by (subst Parse_GoType_package)
        (simp_all add: f g LastIndex_ksuid trim_go_ksuid isPointer_def)
    then show "snd (Parse ov) = Return (ov2\<lparr>GoTypeName := ''*ksuid.KSUID'',
              GoPackage := ''github.com/segmentio/ksuid''\<rparr>) None"
      using p by simp
    show "\<not> GoBasicType ov2" by (rule f)
    show "isPointer ov" by (simp add: g isPointer_def)
  qed
qed

lemma Parse_checks_db_type:
  "Parse_checks (zero_Override\<lparr>GoType := g, DBType := ''uuid''\<rparr>) =
     Return (zero_Override\<lparr>GoType := g, DBType := ''uuid''\<rparr>) None"
  by (simp add: Parse_checks_def Parse_Deprecated_def Parse_Options_def Parse_Column_def
      and_then_def zero_Override_def)

text \<open>
  C1, as the claim has it, fails: for \<^verbatim>\<open>github.com/segmentio/ksuid.KSUID\<close> the type
  name that the call sets is \<^verbatim>\<open>ksuid.KSUID\<close>, not \<^verbatim>\<open>KSUID\<close>.
\<close>

theorem Parse_ksuid_type_name:
  "snd (Parse (zero_Override\<lparr>GoType := ''github.com/segmentio/ksuid.KSUID'', DBType := ''uuid''\<rparr>)) =
     Return (zero_Override\<lparr>GoType := ''github.com/segmentio/ksuid.KSUID'', DBType := ''uuid'',
       GoTypeName := ''ksuid.KSUID'', GoPackage := ''github.com/segmentio/ksuid''\<rparr>) None \<and>
   ''ksuid.KSUID'' \<noteq> ''KSUID''"
proof
  let ?ov = "zero_Override\<lparr>GoType := ''github.com/segmentio/ksuid.KSUID'', DBType := ''uuid''\<rparr>"
  have "Parse_GoType ?ov = Return (?ov\<lparr>GoTypeName := ''ksuid.KSUID'',
              GoPackage := ''github.com/segmentio/ksuid''\<rparr>) None"
    by (subst Parse_GoType_package)
      (simp_all add: LastIndex_ksuid trim_go_ksuid isPointer_def)
  then show "snd (Parse ?ov) = Return (?ov\<lparr>GoTypeName := ''ksuid.KSUID'',
              GoPackage := ''github.com/segmentio/ksuid''\<rparr>) None"
    using Parse_reached [OF Parse_checks_db_type] by simp
  show "''ksuid.KSUID'' \<noteq> ''KSUID''" by simp
qed

theorem Parse_type_reference_examples_witness:
  "snd (Parse (zero_Override\<lparr>GoType := ''string'', DBType := ''uuid''\<rparr>)) =
     Return (zero_Override\<lparr>GoType := ''string'', DBType := ''uuid'',
       GoBasicType := True, GoTypeName := ''string''\<rparr>) None \<and>
   snd (Parse (zero_Override\<lparr>GoType := ''github.com/segmentio/ksuid.KSUID'', Column := ''accounts.id''\<rparr>)) =
     Return (zero_Override\<lparr>GoType := ''github.com/segmentio/ksuid.KSUID'', Column := ''accounts.id'',
       ColumnName := ''id'', Table := \<lparr>Catalog = [], Schema = ''public'', Rel = ''accounts''\<rparr>,
       GoTypeName := ''ksuid.KSUID'', GoPackage := ''github.com/segmentio/ksuid''\<rparr>) None \<and>
   snd (Parse (zero_Override\<lparr>GoType := ''*github.com/segmentio/ksuid.KSUID'', DBType := ''uuid''\<rparr>)) =
     Return (zero_Override\<lparr>GoType := ''*github.com/segmentio/ksuid.KSUID'', DBType := ''uuid'',
       GoTypeName := ''*ksuid.KSUID'', GoPackage := ''github.com/segmentio/ksuid''\<rparr>) None"
  using Parse_type_reference_examples [OF Parse_checks_db_type [of "''string''"]]
    Parse_type_reference_examples
      [OF Parse_checks_column_only [of "''github.com/segmentio/ksuid.KSUID''"]]
    Parse_type_reference_examples [OF Parse_checks_db_type [of "''*github.com/segmentio/ksuid.KSUID''"]]
  by (simp add: zero_Override_def)

subsection \<open>A type reference whose last dot precedes its last slash\<close>

text \<open>
  C10, as the code has it. When \<^verbatim>\<open>go_type\<close> has a dot and a slash and its last dot
  comes before its last slash, and the call gets as far as the type reference, the call
  returns no error. The package path is what precedes the last dot, without a leading
  pointer sigil. The type name is what follows the last slash, cut by \<open>trim_go\<close> (a
  leading \<^verbatim>\<open>go-\<close>, then a trailing \<^verbatim>\<open>-go\<close>), with the pointer sigil in front when
  \<^verbatim>\<open>go_type\<close> begins with it. For \<^verbatim>\<open>a.b/c\<close> these are \<^verbatim>\<open>a\<close> and \<^verbatim>\<open>c\<close>.
\<close>

theorem Parse_dot_before_slash:
  assumes "Parse_checks ov = Return ov2 None"
    and "CHR ''.'' \<in> set (GoType ov)" and "CHR ''/'' \<in> set (GoType ov)"
    and "LastIndex (GoType ov) CHR ''.'' < LastIndex (GoType ov) CHR ''/''"
  shows "snd (Parse ov) =
     Return (ov2\<lparr>GoTypeName :=
                    (if isPointer ov then ''*'' else []) @
                    trim_go (drop (nat (LastIndex (GoType ov) CHR ''/'' + 1)) (GoType ov)),
                 GoPackage :=
                    (if isPointer ov
                     then drop 1 (take (nat (LastIndex (GoType ov) CHR ''.'')) (GoType ov))
                     else take (nat (LastIndex (GoType ov) CHR ''.'')) (GoType ov))\<rparr>) None"
proof -
  have g: "GoType ov2 = GoType ov" using assms(1) Parse_checks_fields by blast
  then have i: "isPointer ov2 = isPointer ov" by (simp add: isPointer_def)
  have "snd (Parse ov) = Parse_GoType ov2" using assms(1) by (rule Parse_reached)
  also have "\<dots> = Return (ov2\<lparr>GoTypeName :=
                    (if isPointer ov2 then ''*'' else []) @
                    trim_go (drop (nat (LastIndex (GoType ov2) CHR ''/'' + 1)) (GoType ov2)),
                 GoPackage :=
                    (if isPointer ov2
                     then drop 1 (take (nat (LastIndex (GoType ov2) CHR ''.'')) (GoType ov2))
                     else take (nat (LastIndex (GoType ov2) CHR ''.'')) (GoType ov2))\<rparr>) None"
    using assms(2,3) by (intro Parse_GoType_package) (simp_all add: g)
  finally show ?thesis by (simp only: g i)
qed

theorem Parse_dot_before_slash_witness:
  "snd (Parse (zero_Override\<lparr>GoType := ''a.b/c'', DBType := ''uuid''\<rparr>)) =
     Return (zero_Override\<lparr>GoType := ''a.b/c'', DBType := ''uuid'',
       GoTypeName := ''c'', GoPackage := ''a''\<rparr>) None"
  using Parse_dot_before_slash [OF Parse_checks_db_type [of "''a.b/c''"]]
  by (simp add: zero_Override_def isPointer_def trim_go_def HasPrefix_def HasSuffix_def)

text \<open>
  C10, as the claim has it, fails: \<^verbatim>\<open>a.b/go-c\<close> has its last dot before its last
  slash, what follows the last slash is \<^verbatim>\<open>go-c\<close>, and the type name set is \<^verbatim>\<open>c\<close>.
\<close>

theorem Parse_go_prefix_type_name:
  "snd (Parse (zero_Override\<lparr>GoType := ''a.b/go-c'', DBType := ''uuid''\<rparr>)) =
     Return (zero_Override\<lparr>GoType := ''a.b/go-c'', DBType := ''uuid'',
       GoTypeName := ''c'', GoPackage := ''a''\<rparr>) None \<and>
   LastIndex ''a.b/go-c'' CHR ''.'' < LastIndex ''a.b/go-c'' CHR ''/'' \<and>
   drop (nat (LastIndex ''a.b/go-c'' CHR ''/'' + 1)) ''a.b/go-c'' = ''go-c'' \<and>
   ''c'' \<noteq> ''go-c''"
proof -
  let ?ov = "zero_Override\<lparr>GoType := ''a.b/go-c'', DBType := ''uuid''\<rparr>"
  have "Parse_GoType ?ov = Return (?ov\<lparr>GoTypeName := ''c'', GoPackage := ''a''\<rparr>) None"
    by (subst Parse_GoType_package)
      (simp_all add: isPointer_def trim_go_def HasPrefix_def HasSuffix_def)
  then have "snd (Parse ?ov) = Return (?ov\<lparr>GoTypeName := ''c'', GoPackage := ''a''\<rparr>) None"
    using Parse_reached [OF Parse_checks_db_type] by simp
  then show ?thesis by simp
qed

subsection \<open>The column specifier\<close>

text \<open>
  \<open>Split\<close> is the splitting of the library: one piece more than there are separators,
  no separator in a piece, and the pieces joined by the separator are the string.
\<close>

lemma Split_nonempty: "Split s c \<noteq> []"
  by (induction s) (auto simp: Let_def)

lemma Split_length: "length (Split s c) = Suc (count_list s c)"
proof (induction s)
  case Nil
  then show ?case by simp
next
  case (Cons x xs)
  then show ?case using Split_nonempty [of xs c] by (cases "Split xs c") (auto simp: Let_def)
qed

lemma Split_pieces: "p \<in> set (Split s c) \<Longrightarrow> c \<notin> set p"
proof (induction s arbitrary: p)
  case Nil
  then show ?case by simp
next
  case (Cons x xs)
  then show ?case using Split_nonempty [of xs c]
    by (cases "Split xs c") (auto simp: Let_def split: if_splits)
qed

lemma Split_join: "concat (map ((#) c) (Split s c)) = c # s"
proof (induction s)
  case Nil
  then show ?case by simp
next
  case (Cons x xs)
  then show ?case using Split_nonempty [of xs c]
    by (cases "Split xs c") (auto simp: Let_def)
qed

lemma Parse_GoType_fields:
  "Parse_GoType ov = Return r e \<Longrightarrow>
   ColumnName r = ColumnName ov \<and> Table r = Table ov \<and> DBType r = DBType ov \<and>
   Column r = Column ov \<and> GoType r = GoType ov \<and>
   Deprecated_PostgresType r = Deprecated_PostgresType ov"
  by (auto simp: Parse_GoType_def set_GoTypeName_def Let_def split: if_splits)

lemma Parse_GoType_errors:
  "Parse_GoType ov = Return r (Some e) \<Longrightarrow>
   r = ov \<and> (e = NotBasicType (GoType ov) \<or> e = GoTypeFormat (GoType ov))"
  by (auto simp: Parse_GoType_def set_GoTypeName_def Let_def split: if_splits)

lemma Parse_Column_errors:
  "Parse_Column ov = Return r (Some e) \<Longrightarrow> r = ov \<and> e = ColumnFormat (Column ov)"
  by (auto simp: Parse_Column_def Let_def split: if_splits)

lemma Parse_GoType_returns: "\<exists>r e. Parse_GoType ov = Return r e"
  using Parse_GoType_no_panic [of ov] by (cases "Parse_GoType ov") auto

text \<open>
  The part of C2 on the pieces, which the code meets. Take an override that sets
  \<^verbatim>\<open>column\<close> and not \<^verbatim>\<open>db_type\<close> or \<^verbatim>\<open>postgres_type\<close>, which are the overrides whose
  column specifier is parsed. The call returns, and with the specifier split at the
  dots: two pieces are accepted, with the schema \<^verbatim>\<open>public\<close>, the table piece 0 and the
  column piece 1; three are accepted, with the schema piece 0, the table piece 1 and the
  column piece 2; four are accepted, with the catalog piece 0, the schema piece 1, the
  table piece 2 and the column piece 3. Accepted means that lines 100 to 133 return no
  error and leave exactly these fields set, so that the only errors the call can still
  return are those of the type reference. Any other number of pieces gives the error
  about the format of the \<^verbatim>\<open>column\<close> specifier, with the override unchanged.
\<close>

theorem Parse_column_specifier:
  assumes "Column ov \<noteq> []" and "DBType ov = []" and "Deprecated_PostgresType ov = []"
  shows "\<exists>r e. snd (Parse ov) = Return r e \<and>
     (let colParts = Split (Column ov) CHR ''.'' in
        (length colParts = 2 \<longrightarrow>
           Parse_checks ov =
             Return (ov\<lparr>ColumnName := colParts ! 1,
               Table := \<lparr>Catalog = [], Schema = ''public'', Rel = colParts ! 0\<rparr>\<rparr>) None \<and>
           ColumnName r = colParts ! 1 \<and>
           Table r = \<lparr>Catalog = [], Schema = ''public'', Rel = colParts ! 0\<rparr>) \<and>
        (length colParts = 3 \<longrightarrow>
           Parse_checks ov =
             Return (ov\<lparr>ColumnName := colParts ! 2,
               Table := \<lparr>Catalog = [], Schema = colParts ! 0, Rel = colParts ! 1\<rparr>\<rparr>) None \<and>
           ColumnName r = colParts ! 2 \<and>
           Table r = \<lparr>Catalog = [], Schema = colParts ! 0, Rel = colParts ! 1\<rparr>) \<and>
        (length colParts = 4 \<longrightarrow>
           Parse_checks ov =
             Return (ov\<lparr>ColumnName := colParts ! 3,
               Table := \<lparr>Catalog = colParts ! 0, Schema = colParts ! 1,
                         Rel = colParts ! 2\<rparr>\<rparr>) None \<and>
           ColumnName r = colParts ! 3 \<and>
           Table r = \<lparr>Catalog = colParts ! 0, Schema = colParts ! 1, Rel = colParts ! 2\<rparr>) \<and>
        (length colParts \<in> {2, 3, 4} \<longrightarrow>
           e \<noteq> Some (ColumnFormat (Column ov)) \<and>
           (e = None \<or> e = Some (NotBasicType (GoType ov)) \<or>
            e = Some (GoTypeFormat (GoType ov)))) \<and>
        (length colParts \<notin> {2, 3, 4} \<longrightarrow>
           r = ov \<and> e = Some (ColumnFormat (Column ov))))"
proof -
  let ?parts = "Split (Column ov) CHR ''.''"
  have c: "Parse_checks ov = Parse_Column ov"
    using assms
    by (simp add: Parse_checks_def Parse_Deprecated_def Parse_Options_def and_then_def)
  show ?thesis
  proof (cases "length ?parts \<in> {2, 3, 4}")
    case False
    then have "Parse_Column ov = Return ov (Some (ColumnFormat (Column ov)))"
      using assms(1) by (simp add: Parse_Column_def Let_def)
    then have "snd (Parse ov) = Return ov (Some (ColumnFormat (Column ov)))"
      by (simp add: Parse_def c and_then_def)
    with False show ?thesis by (simp add: Let_def)
  next
    case True
    then obtain ov2 where r: "Parse_Column ov = Return ov2 None"
      and f: "length ?parts = 2 \<longrightarrow> ov2 = ov\<lparr>ColumnName := ?parts ! 1,
               Table := \<lparr>Catalog = [], Schema = ''public'', Rel = ?parts ! 0\<rparr>\<rparr>"
         "length ?parts = 3 \<longrightarrow> ov2 = ov\<lparr>ColumnName := ?parts ! 2,
               Table := \<lparr>Catalog = [], Schema = ?parts ! 0, Rel = ?parts ! 1\<rparr>\<rparr>"
         "length ?parts = 4 \<longrightarrow> ov2 = ov\<lparr>ColumnName := ?parts ! 3,
               Table := \<lparr>Catalog = ?parts ! 0, Schema = ?parts ! 1, Rel = ?parts ! 2\<rparr>\<rparr>"
      using assms(1) by (auto simp: Parse_Column_def Let_def)
    have g: "GoType ov2 = GoType ov"
      using Parse_checks_fields [of ov ov2 None] r c by simp
    obtain r' e where p: "Parse_GoType ov2 = Return r' e"
      using Parse_GoType_returns by blast
    then have k: "ColumnName r' = ColumnName ov2" "Table r' = Table ov2"
      using Parse_GoType_fields by blast+
    have e: "e = None \<or> e = Some (NotBasicType (GoType ov)) \<or>
        e = Some (GoTypeFormat (GoType ov))"
      using Parse_GoType_errors [of ov2 r'] p g by (cases e) auto
    then have ne: "e \<noteq> Some (ColumnFormat (Column ov))" by auto
    have s: "snd (Parse ov) = Return r' e"
      using r p by (simp add: Parse_def c and_then_def)
    have pc: "Parse_checks ov = Return ov2 None" using r c by simp
    show ?thesis
    proof (intro exI conjI)
      show "snd (Parse ov) = Return r' e" by (rule s)
      show "let colParts = ?parts in
        (length colParts = 2 \<longrightarrow>
           Parse_checks ov =
             Return (ov\<lparr>ColumnName := colParts ! 1,
               Table := \<lparr>Catalog = [], Schema = ''public'', Rel = colParts ! 0\<rparr>\<rparr>) None \<and>
           ColumnName r' = colParts ! 1 \<and>
           Table r' = \<lparr>Catalog = [], Schema = ''public'', Rel = colParts ! 0\<rparr>) \<and>
        (length colParts = 3 \<longrightarrow>
           Parse_checks ov =
             Return (ov\<lparr>ColumnName := colParts ! 2,
               Table := \<lparr>Catalog = [], Schema = colParts ! 0, Rel = colParts ! 1\<rparr>\<rparr>) None \<and>
           ColumnName r' = colParts ! 2 \<and>
           Table r' = \<lparr>Catalog = [], Schema = colParts ! 0, Rel = colParts ! 1\<rparr>) \<and>
        (length colParts = 4 \<longrightarrow>
           Parse_checks ov =
             Return (ov\<lparr>ColumnName := colParts ! 3,
               Table := \<lparr>Catalog = colParts ! 0, Schema = colParts ! 1,
                         Rel = colParts ! 2\<rparr>\<rparr>) None \<and>
           ColumnName r' = colParts ! 3 \<and>
           Table r' = \<lparr>Catalog = colParts ! 0, Schema = colParts ! 1, Rel = colParts ! 2\<rparr>) \<and>
        (length colParts \<in> {2, 3, 4} \<longrightarrow>
           e \<noteq> Some (ColumnFormat (Column ov)) \<and>
           (e = None \<or> e = Some (NotBasicType (GoType ov)) \<or>
            e = Some (GoTypeFormat (GoType ov)))) \<and>
        (length colParts \<notin> {2, 3, 4} \<longrightarrow>
           r' = ov \<and> e = Some (ColumnFormat (Column ov)))"
        unfolding Let_def using True f k e ne pc by auto
    qed
  qed
qed

lemma Split_examples:
  "Split ''accounts.id'' CHR ''.'' = [''accounts'', ''id'']"
  "Split ''app.accounts.id'' CHR ''.'' = [''app'', ''accounts'', ''id'']"
  "Split ''db.app.accounts.id'' CHR ''.'' = [''db'', ''app'', ''accounts'', ''id'']"
  "Split ''accounts'' CHR ''.'' = [''accounts'']"
  "Split ''a.b.c.d.e'' CHR ''.'' = [''a'', ''b'', ''c'', ''d'', ''e'']"
  by simp_all

theorem Parse_column_specifier_witness:
  "snd (Parse (zero_Override\<lparr>GoType := ''string'', Column := ''accounts.id''\<rparr>)) =
     Return (zero_Override\<lparr>GoType := ''string'', Column := ''accounts.id'', ColumnName := ''id'',
        Table := \<lparr>Catalog = [], Schema = ''public'', Rel = ''accounts''\<rparr>,
        GoBasicType := True, GoTypeName := ''string''\<rparr>) None \<and>
   Parse_checks (zero_Override\<lparr>GoType := ''string'', Column := ''app.accounts.id''\<rparr>) =
     Return (zero_Override\<lparr>GoType := ''string'', Column := ''app.accounts.id'', ColumnName := ''id'',
        Table := \<lparr>Catalog = [], Schema = ''app'', Rel = ''accounts''\<rparr>\<rparr>) None \<and>
   Parse_checks (zero_Override\<lparr>GoType := ''string'', Column := ''db.app.accounts.id''\<rparr>) =
     Return (zero_Override\<lparr>GoType := ''string'', Column := ''db.app.accounts.id'',
        ColumnName := ''id'',
        Table := \<lparr>Catalog = ''db'', Schema = ''app'', Rel = ''accounts''\<rparr>\<rparr>) None \<and>
   snd (Parse (zero_Override\<lparr>GoType := ''string'', Column := ''accounts''\<rparr>)) =
     Return (zero_Override\<lparr>GoType := ''string'', Column := ''accounts''\<rparr>)
       (Some (ColumnFormat ''accounts'')) \<and>
   snd (Parse (zero_Override\<lparr>GoType := ''string'', Column := ''a.b.c.d.e''\<rparr>)) =
     Return (zero_Override\<lparr>GoType := ''string'', Column := ''a.b.c.d.e''\<rparr>)
       (Some (ColumnFormat ''a.b.c.d.e''))"
proof -
  have a: "snd (Parse (zero_Override\<lparr>GoType := ''string'', Column := ''accounts.id''\<rparr>)) =
     Return (zero_Override\<lparr>GoType := ''string'', Column := ''accounts.id'', ColumnName := ''id'',
        Table := \<lparr>Catalog = [], Schema = ''public'', Rel = ''accounts''\<rparr>,
        GoBasicType := True, GoTypeName := ''string''\<rparr>) None"
    using Parse_reached [OF Parse_checks_column_only [of "''string''"]]
    by (simp add: Parse_GoType_basic find_basic_Typ zero_Override_def)
  show ?thesis
    using a
      Parse_column_specifier [of "zero_Override\<lparr>GoType := ''string'', Column := ''accounts.id''\<rparr>"]
      Parse_column_specifier [of "zero_Override\<lparr>GoType := ''string'', Column := ''app.accounts.id''\<rparr>"]
      Parse_column_specifier [of "zero_Override\<lparr>GoType := ''string'', Column := ''db.app.accounts.id''\<rparr>"]
      Parse_column_specifier [of "zero_Override\<lparr>GoType := ''string'', Column := ''accounts''\<rparr>"]
      Parse_column_specifier [of "zero_Override\<lparr>GoType := ''string'', Column := ''a.b.c.d.e''\<rparr>"]
    by (auto simp: zero_Override_def Split_examples)
qed

text \<open>
  C2. The claim has the error for a malformed specifier name the shape
  \<^verbatim>\<open>[catalog.][schema.]table.column\<close>, which is the order the code parses:
  \<^verbatim>\<open>accounts.id\<close> gives the table \<^verbatim>\<open>accounts\<close> and the column \<^verbatim>\<open>id\<close>. The text of the
  error that the code returns, here for the one-piece specifier \<^verbatim>\<open>accounts\<close>, names
  \<^verbatim>\<open>[catalog.][schema.]colname.tablename\<close> instead, column before table.
\<close>

theorem Parse_column_format_message:
  "snd (Parse (zero_Override\<lparr>GoType := ''string'', Column := ''accounts''\<rparr>)) =
     Return (zero_Override\<lparr>GoType := ''string'', Column := ''accounts''\<rparr>)
       (Some (ColumnFormat ''accounts'')) \<and>
   Error (ColumnFormat ''accounts'') =
     [Lit ''Override `column` specifier '', Quoted ''accounts'',
      Lit ('' is not the proper format, expected '[catalog.][schema.]colname.tablename'' @
           [CHR 0x27])] \<and>
   Parse_checks (zero_Override\<lparr>GoType := ''string'', Column := ''accounts.id''\<rparr>) =
     Return (zero_Override\<lparr>GoType := ''string'', Column := ''accounts.id'', ColumnName := ''id'',
        Table := \<lparr>Catalog = [], Schema = ''public'', Rel = ''accounts''\<rparr>\<rparr>) None"
proof (intro conjI)
  show "snd (Parse (zero_Override\<lparr>GoType := ''string'', Column := ''accounts''\<rparr>)) =
     Return (zero_Override\<lparr>GoType := ''string'', Column := ''accounts''\<rparr>)
       (Some (ColumnFormat ''accounts''))"
    by (simp add: Parse_def Parse_checks_def Parse_Deprecated_def Parse_Options_def
        Parse_Column_def and_then_def zero_Override_def)
  show "Error (ColumnFormat ''accounts'') =
     [Lit ''Override `column` specifier '', Quoted ''accounts'',
      Lit ('' is not the proper format, expected '[catalog.][schema.]colname.tablename'' @
           [CHR 0x27])]"
    by simp
  show "Parse_checks (zero_Override\<lparr>GoType := ''string'', Column := ''accounts.id''\<rparr>) =
     Return (zero_Override\<lparr>GoType := ''string'', Column := ''accounts.id'', ColumnName := ''id'',
        Table := \<lparr>Catalog = [], Schema = ''public'', Rel = ''accounts''\<rparr>\<rparr>) None"
    by (rule Parse_checks_column_only)
qed

subsection \<open>\<^verbatim>\<open>column\<close> and \<^verbatim>\<open>db_type\<close>\<close>

lemma Parse_checks_errors:
  "Parse_checks ov = Return r (Some e) \<Longrightarrow>
   e = DBTypeWithPostgresType \<or> e = ColumnOrDBTypeMissing \<or>
   (\<exists>a b. e = ColumnWithDBType a b) \<or> (\<exists>a. e = ColumnFormat a)"
  by (auto simp: Parse_checks_def Parse_Deprecated_def Parse_Options_def Parse_Column_def
      and_then_def Let_def split: if_splits)

lemma Parse_errors:
  assumes "snd (Parse ov) = Return r (Some e)"
  shows "e = DBTypeWithPostgresType \<or> e = ColumnOrDBTypeMissing \<or>
   (\<exists>a b. e = ColumnWithDBType a b) \<or> (\<exists>a. e = ColumnFormat a) \<or>
   (\<exists>a. e = NotBasicType a) \<or> (\<exists>a. e = GoTypeFormat a)"
proof (cases "Parse_checks ov")
  case (Return v eo)
  show ?thesis
  proof (cases eo)
    case None
    with Return have "Parse_GoType v = Return r (Some e)"
      using assms by (simp add: Parse_def and_then_def)
    then show ?thesis using Parse_GoType_errors by blast
  next
    case (Some e')
    with Return have "Parse_checks ov = Return r (Some e)"
      using assms by (simp add: Parse_def and_then_def)
    then show ?thesis using Parse_checks_errors by blast
  qed
next
  case (Panic p)
  then show ?thesis using Parse_checks_no_panic by blast
qed

text \<open>
  C4. Take an override that gets past the deprecated field, and let \<open>db\<close> be its
  \<^verbatim>\<open>db_type\<close> after that step. If \<^verbatim>\<open>column\<close> and \<open>db\<close> are both set, the call returns
  the error about specifying both \<^verbatim>\<open>column\<close> and \<^verbatim>\<open>db_type\<close>; if neither is set, it
  returns the error that one of them must be specified; if exactly one is set, the call
  returns neither of these two errors, whatever else it returns.
\<close>

theorem Parse_column_db_type_exclusive:
  assumes "\<not> (Deprecated_PostgresType ov \<noteq> [] \<and> DBType ov \<noteq> [])"
  shows "let db = (if Deprecated_PostgresType ov \<noteq> [] then Deprecated_PostgresType ov
                   else DBType ov) in
     (Column ov \<noteq> [] \<and> db \<noteq> [] \<longrightarrow>
        snd (Parse ov) = Return (ov\<lparr>DBType := db\<rparr>) (Some (ColumnWithDBType (Column ov) db))) \<and>
     (Column ov = [] \<and> db = [] \<longrightarrow>
        snd (Parse ov) = Return ov (Some ColumnOrDBTypeMissing)) \<and>
     ((Column ov = []) \<noteq> (db = []) \<longrightarrow>
        (\<forall>r e. snd (Parse ov) = Return r e \<longrightarrow>
           e \<noteq> Some ColumnOrDBTypeMissing \<and> (\<forall>a b. e \<noteq> Some (ColumnWithDBType a b))))"
proof -
  let ?db = "if Deprecated_PostgresType ov \<noteq> [] then Deprecated_PostgresType ov else DBType ov"
  let ?ov = "ov\<lparr>DBType := ?db\<rparr>"
  have d: "snd (Parse_Deprecated ov) = Return ?ov None"
    using assms by (auto simp: Parse_Deprecated_def)
  have a: "snd (Parse ov) = Return ?ov (Some (ColumnWithDBType (Column ov) ?db))"
    if "Column ov \<noteq> []" "?db \<noteq> []"
    using that by (simp add: Parse_def Parse_checks_def d and_then_def Parse_Options_def)
  have b: "snd (Parse ov) = Return ov (Some ColumnOrDBTypeMissing)"
    if "Column ov = []" "?db = []"
  proof -
    have "?ov = ov" using that by (simp split: if_splits)
    then have "snd (Parse_Deprecated ov) = Return ov None" using d by simp
    moreover have "DBType ov = []" using that by (simp split: if_splits)
    ultimately show ?thesis using that
      by (simp add: Parse_def Parse_checks_def and_then_def Parse_Options_def)
  qed
  have c: "e \<noteq> Some ColumnOrDBTypeMissing \<and> (\<forall>a b. e \<noteq> Some (ColumnWithDBType a b))"
    if x: "(Column ov = []) \<noteq> (?db = [])" and p: "snd (Parse ov) = Return r e" for r e
  proof -
    have o: "Parse_Options ?ov = Return ?ov None"
      using x by (auto simp: Parse_Options_def)
    have k: "Parse_checks ov = Parse_Column ?ov"
      by (simp add: Parse_checks_def d o and_then_def)
    show ?thesis
    proof (cases "Parse_Column ?ov")
      case (Return v eo)
      show ?thesis
      proof (cases eo)
        case None
        with Return k p have "Parse_GoType v = Return r e"
          by (simp add: Parse_def and_then_def)
        then show ?thesis using Parse_GoType_errors [of v r] by (cases e) auto
      next
        case (Some e')
        with Return k p have "e = Some e'" by (simp add: Parse_def and_then_def)
        moreover have "e' = ColumnFormat (Column ?ov)"
          using Return Some Parse_Column_errors by blast
        ultimately show ?thesis by simp
      qed
    next
      case (Panic q)
      then show ?thesis using Parse_Column_no_panic by blast
    qed
  qed
  show ?thesis unfolding Let_def using a b c by blast
qed

lemma Parse_string_db_type:
  "snd (Parse (zero_Override\<lparr>GoType := ''string'', DBType := ''uuid''\<rparr>)) =
     Return (zero_Override\<lparr>GoType := ''string'', DBType := ''uuid'',
               GoBasicType := True, GoTypeName := ''string''\<rparr>) None"
  using Parse_reached [OF Parse_checks_db_type [of "''string''"]]
  by (simp add: Parse_GoType_basic find_basic_Typ)

theorem Parse_column_db_type_exclusive_witness:
  "snd (Parse (zero_Override\<lparr>GoType := ''string'', DBType := ''uuid'', Column := ''accounts.id''\<rparr>)) =
     Return (zero_Override\<lparr>GoType := ''string'', DBType := ''uuid'', Column := ''accounts.id''\<rparr>)
       (Some (ColumnWithDBType ''accounts.id'' ''uuid'')) \<and>
   snd (Parse (zero_Override\<lparr>GoType := ''string''\<rparr>)) =
     Return (zero_Override\<lparr>GoType := ''string''\<rparr>) (Some ColumnOrDBTypeMissing) \<and>
   snd (Parse (zero_Override\<lparr>GoType := ''string'', DBType := ''uuid''\<rparr>)) =
     Return (zero_Override\<lparr>GoType := ''string'', DBType := ''uuid'',
               GoBasicType := True, GoTypeName := ''string''\<rparr>) None \<and>
   None \<noteq> Some ColumnOrDBTypeMissing"
  using Parse_column_db_type_exclusive
      [of "zero_Override\<lparr>GoType := ''string'', DBType := ''uuid'', Column := ''accounts.id''\<rparr>"]
    Parse_column_db_type_exclusive [of "zero_Override\<lparr>GoType := ''string''\<rparr>"]
    Parse_column_db_type_exclusive [of "zero_Override\<lparr>GoType := ''string'', DBType := ''uuid''\<rparr>"]
    Parse_string_db_type
  by (simp add: zero_Override_def Let_def)

subsection \<open>The deprecated \<^verbatim>\<open>postgres_type\<close>\<close>

text \<open>
  The parts after the first never read the deprecated field: clearing it in their
  input clears it in their outcome and changes nothing else.
\<close>

lemma and_then_map:
  assumes "\<And>v. F (u v) = map_outcome u (F v)"
  shows "and_then (map_outcome u r) F = map_outcome u (and_then r F)"
  using assms by (cases r) (auto simp: and_then_def split: option.splits)

lemma Parse_Options_alias:
  "Parse_Options (ov\<lparr>Deprecated_PostgresType := d\<rparr>) =
     map_outcome (\<lambda>r. r\<lparr>Deprecated_PostgresType := d\<rparr>) (Parse_Options ov)"
  by (simp add: Parse_Options_def)

lemma Parse_Column_alias:
  "Parse_Column (ov\<lparr>Deprecated_PostgresType := d\<rparr>) =
     map_outcome (\<lambda>r. r\<lparr>Deprecated_PostgresType := d\<rparr>) (Parse_Column ov)"
  by (simp add: Parse_Column_def Let_def)

lemma Parse_GoType_alias:
  "Parse_GoType (ov\<lparr>Deprecated_PostgresType := d\<rparr>) =
     map_outcome (\<lambda>r. r\<lparr>Deprecated_PostgresType := d\<rparr>) (Parse_GoType ov)"
  by (simp add: Parse_GoType_def set_GoTypeName_def isPointer_def Let_def)

lemma Parse_rest_alias:
  "and_then (and_then (Parse_Options (ov\<lparr>Deprecated_PostgresType := d\<rparr>)) Parse_Column)
       Parse_GoType =
   map_outcome (\<lambda>r. r\<lparr>Deprecated_PostgresType := d\<rparr>)
     (and_then (and_then (Parse_Options ov) Parse_Column) Parse_GoType)"
  by (simp only: Parse_Options_alias and_then_map [where F = Parse_Column, OF Parse_Column_alias]
      and_then_map [where F = Parse_GoType, OF Parse_GoType_alias])

lemma Parse_rest_DBType:
  assumes "and_then (and_then (Parse_Options ov) Parse_Column) Parse_GoType = Return r e"
  shows "DBType r = DBType ov \<and> Deprecated_PostgresType r = Deprecated_PostgresType ov"
proof -
  have o: "Parse_Options ov = Return v eo \<Longrightarrow> v = ov" for v eo
    by (auto simp: Parse_Options_def split: if_splits)
  have c: "Parse_Column v = Return w eo \<Longrightarrow>
      DBType w = DBType v \<and> Deprecated_PostgresType w = Deprecated_PostgresType v" for v w eo
    by (auto simp: Parse_Column_def Let_def split: if_splits)
  have g: "Parse_GoType v = Return w eo \<Longrightarrow>
      DBType w = DBType v \<and> Deprecated_PostgresType w = Deprecated_PostgresType v" for v w eo
    using Parse_GoType_fields by blast
  show ?thesis using assms o c g
    by (auto simp: and_then_def split: outcome.splits option.splits)
qed

text \<open>
  C6. Take an override that sets \<^verbatim>\<open>postgres_type\<close>. If it sets \<^verbatim>\<open>db_type\<close> too, the
  call writes the warning and returns the error that the two cannot go together.
  Otherwise the call writes the warning, which is one line; whenever it returns,
  \<^verbatim>\<open>db_type\<close> holds the value of \<^verbatim>\<open>postgres_type\<close>; and its outcome is, up to the
  deprecated field, the outcome for the override that gives the same value as
  \<^verbatim>\<open>db_type\<close> and no \<^verbatim>\<open>postgres_type\<close>: the same error, or the same success.
\<close>

theorem Parse_deprecated_alias:
  assumes "Deprecated_PostgresType ov \<noteq> []"
  shows "(DBType ov \<noteq> [] \<longrightarrow>
            Parse ov = ([deprecation_warning], Return ov (Some DBTypeWithPostgresType))) \<and>
         (DBType ov = [] \<longrightarrow>
            fst (Parse ov) = [deprecation_warning] \<and>
            count_list deprecation_warning CHR ''\<newline>'' = 1 \<and>
            (\<forall>r e. snd (Parse ov) = Return r e \<longrightarrow>
               DBType r = Deprecated_PostgresType ov \<and>
               Deprecated_PostgresType r = Deprecated_PostgresType ov) \<and>
            snd (Parse (ov\<lparr>DBType := Deprecated_PostgresType ov, Deprecated_PostgresType := []\<rparr>)) =
              map_outcome (\<lambda>r. r\<lparr>Deprecated_PostgresType := []\<rparr>) (snd (Parse ov)))"
proof (intro conjI impI allI)
  assume "DBType ov \<noteq> []"
  with assms show "Parse ov = ([deprecation_warning], Return ov (Some DBTypeWithPostgresType))"
    by (simp add: Parse_def Parse_checks_def Parse_Deprecated_def and_then_def)
next
  assume db: "DBType ov = []"
  let ?ov = "ov\<lparr>DBType := Deprecated_PostgresType ov\<rparr>"
  let ?rest = "\<lambda>v. and_then (and_then (Parse_Options v) Parse_Column) Parse_GoType"
  show "fst (Parse ov) = [deprecation_warning]"
    using assms by (simp add: Parse_def Parse_Deprecated_def)
  show "count_list deprecation_warning CHR ''\<newline>'' = 1"
    by (simp add: deprecation_warning_def)
  have p: "snd (Parse ov) = ?rest ?ov"
    using assms db by (simp add: Parse_def Parse_checks_def Parse_Deprecated_def and_then_def)
  show "DBType r = Deprecated_PostgresType ov" if "snd (Parse ov) = Return r e" for r e
    using that Parse_rest_DBType [of ?ov r e] by (simp add: p)
  show "Deprecated_PostgresType r = Deprecated_PostgresType ov"
    if "snd (Parse ov) = Return r e" for r e
    using that Parse_rest_DBType [of ?ov r e] by (simp add: p)
  have "snd (Parse (?ov\<lparr>Deprecated_PostgresType := []\<rparr>)) =
      ?rest (?ov\<lparr>Deprecated_PostgresType := []\<rparr>)"
    by (simp add: Parse_def Parse_checks_def Parse_Deprecated_def and_then_def)
  also have "\<dots> = map_outcome (\<lambda>r. r\<lparr>Deprecated_PostgresType := []\<rparr>) (?rest ?ov)"
    by (rule Parse_rest_alias)
  finally show "snd (Parse (ov\<lparr>DBType := Deprecated_PostgresType ov, Deprecated_PostgresType := []\<rparr>)) =
      map_outcome (\<lambda>r. r\<lparr>Deprecated_PostgresType := []\<rparr>) (snd (Parse ov))"
    by (simp add: p)
qed

theorem Parse_deprecated_alias_witness:
  "Parse (zero_Override\<lparr>GoType := ''string'', DBType := ''text'', Deprecated_PostgresType := ''uuid''\<rparr>) =
     ([deprecation_warning],
      Return (zero_Override\<lparr>GoType := ''string'', DBType := ''text'', Deprecated_PostgresType := ''uuid''\<rparr>)
        (Some DBTypeWithPostgresType)) \<and>
   fst (Parse (zero_Override\<lparr>GoType := ''string'', Deprecated_PostgresType := ''uuid''\<rparr>)) =
     [deprecation_warning] \<and>
   (\<exists>r. snd (Parse (zero_Override\<lparr>GoType := ''string'', Deprecated_PostgresType := ''uuid''\<rparr>)) =
      Return r None \<and> DBType r = ''uuid'' \<and> Deprecated_PostgresType r = ''uuid'')"
proof -
  let ?a = "zero_Override\<lparr>GoType := ''string'', Deprecated_PostgresType := ''uuid''\<rparr>"
  note n = Parse_string_db_type
  have "\<exists>r. snd (Parse ?a) = Return r None \<and> DBType r = ''uuid'' \<and>
      Deprecated_PostgresType r = ''uuid''"
    using Parse_deprecated_alias [of ?a] n
    by (cases "snd (Parse ?a)") (auto simp: zero_Override_def)
  moreover have "fst (Parse ?a) = [deprecation_warning]"
    using Parse_deprecated_alias [of ?a] by (simp add: zero_Override_def)
  ultimately show ?thesis
    using Parse_deprecated_alias
      [of "zero_Override\<lparr>GoType := ''string'', DBType := ''text'', Deprecated_PostgresType := ''uuid''\<rparr>"]
    by (simp add: zero_Override_def)
qed

subsection \<open>The loops of \<^verbatim>\<open>ParseConfig\<close>\<close>

lemma range_loop_first_error:
  assumes "\<forall>x\<in>set pre. \<exists>w r. step x = (w, Return r None)"
    and "step x = (w, Return r (Some e))"
  shows "\<exists>w' pre'. range_loop step (pre @ x # post) = (w', Return (pre' @ r # post) (Some e))"
  using assms(1)
proof (induction pre)
  case Nil
  have "range_loop step (x # post) = (w, Return ([] @ r # post) (Some e))"
    using assms(2) by simp
  then show ?case by (metis append_Nil)
next
  case (Cons a pre)
  then obtain wa ra where a: "step a = (wa, Return ra None)" by auto
  from Cons obtain w' pre' where
    "range_loop step (pre @ x # post) = (w', Return (pre' @ r # post) (Some e))" by auto
  with a have "range_loop step ((a # pre) @ x # post) =
      (wa @ w', Return ((ra # pre') @ r # post) (Some e))" by simp
  then show ?case by blast
qed

lemma range_loop_error_source:
  "range_loop step xs = (w, Return ys (Some e)) \<Longrightarrow>
   \<exists>x\<in>set xs. \<exists>w' r. step x = (w', Return r (Some e))"
proof (induction xs arbitrary: w ys)
  case Nil
  then show ?case by simp
next
  case (Cons a xs)
  then show ?case
    by (auto split: prod.splits outcome.splits option.splits)
qed

lemma range_loop_success:
  "range_loop step xs = (w, Return ys None) \<Longrightarrow>
   list_all2 (\<lambda>x y. \<exists>w'. step x = (w', Return y None)) xs ys"
proof (induction xs arbitrary: w ys)
  case Nil
  then show ?case by simp
next
  case (Cons a xs)
  then show ?case
    by (auto split: prod.splits outcome.splits option.splits)
qed

lemma range_loop_all_succeed:
  "\<forall>x\<in>set xs. \<exists>w r. step x = (w, Return r None) \<Longrightarrow>
   \<exists>w ys. range_loop step xs = (w, Return ys None)"
proof (induction xs)
  case Nil
  then show ?case by simp
next
  case (Cons a xs)
  then obtain wa ra w ys where "step a = (wa, Return ra None)"
    "range_loop step xs = (w, Return ys None)" by auto
  then show ?case by simp
qed

lemma range_loop_no_panic:
  "\<forall>x q. snd (step x) \<noteq> Panic q \<Longrightarrow> snd (range_loop step xs) \<noteq> Panic p"
proof (induction xs)
  case Nil
  then show ?case by simp
next
  case (Cons a xs)
  then have "snd (step a) \<noteq> Panic q" for q by blast
  with Cons show ?case
    by (cases "step a"; cases "range_loop step xs")
      (auto split: prod.splits outcome.splits option.splits)
qed

lemma range_loop_Parse_no_panic: "range_loop Parse xs \<noteq> (w, Panic p)"
proof
  assume "range_loop Parse xs = (w, Panic p)"
  then have "snd (range_loop Parse xs) = Panic p" by simp
  moreover have "\<forall>x q. snd (Parse x) \<noteq> Panic q" by (simp add: Parse_no_panic)
  ultimately show False using range_loop_no_panic [of Parse xs p] by simp
qed

lemma parse_package_no_panic: "snd (parse_package pkg) \<noteq> Panic p"
  using range_loop_Parse_no_panic [of "PackageSettings.Overrides pkg"]
  by (auto simp: parse_package_def Let_def split: prod.splits outcome.splits option.splits)

lemma range_loop_parse_package_no_panic: "range_loop parse_package xs \<noteq> (w, Panic p)"
proof
  assume "range_loop parse_package xs = (w, Panic p)"
  then have "snd (range_loop parse_package xs) = Panic p" by simp
  moreover have "\<forall>x q. snd (parse_package x) \<noteq> Panic q" by (simp add: parse_package_no_panic)
  ultimately show False using range_loop_no_panic [of parse_package xs p] by simp
qed

lemma ParseConfig_no_panic: "snd (ParseConfig decoded) \<noteq> Panic p"
proof -
  obtain c d where "decoded = (c, d)" by (cases decoded)
  then show ?thesis
    using range_loop_Parse_no_panic [of "GenerateSettings.Overrides c"]
      range_loop_parse_package_no_panic [of "Packages c"]
    by (auto simp: ParseConfig_def split: prod.splits outcome.splits option.splits)
qed

subsection \<open>Global overrides under several engines\<close>

lemma collect_engines_eq:
  "collect_engines pkgs engines = engines \<union> PackageSettings.Engine ` set pkgs"
  by (induction pkgs arbitrary: engines) auto

lemma check_overrides_eq:
  "check_overrides u orides =
     (if u \<and> (\<exists>ov\<in>set orides. Override.Engine ov = []) then Some EngineRequired else None)"
  by (induction orides) auto

lemma ValidateGlobalOverrides_eq:
  "ValidateGlobalOverrides c =
     (if 1 < card (PackageSettings.Engine ` set (Packages c)) \<and>
         (\<exists>ov\<in>set (GenerateSettings.Overrides c). Override.Engine ov = [])
      then Some EngineRequired else None)"
  by (simp add: ValidateGlobalOverrides_def collect_engines_eq check_overrides_eq)

lemma parse_package_errors:
  assumes "parse_package pkg = (w, Return r (Some e))"
  shows "e = ErrNoPackagePath \<or>
     (\<exists>ov\<in>set (PackageSettings.Overrides pkg). \<exists>w' r'. Parse ov = (w', Return r' (Some e)))"
proof (cases "Path pkg = []")
  case True
  with assms show ?thesis by (simp add: parse_package_def)
next
  case False
  with assms obtain w' os where
    "range_loop Parse (PackageSettings.Overrides pkg) = (w', Return os (Some e))"
    by (auto simp: parse_package_def Let_def split: prod.splits outcome.splits option.splits)
  then show ?thesis using range_loop_error_source by fast
qed

lemma Parse_not_EngineRequired: "Parse ov \<noteq> (w, Return r (Some EngineRequired))"
  using Parse_errors [of ov r EngineRequired] by (cases "Parse ov") auto

lemma parse_package_not_EngineRequired:
  "parse_package pkg \<noteq> (w, Return r (Some EngineRequired))"
  using parse_package_errors [of pkg w r EngineRequired] Parse_not_EngineRequired by auto


text \<open>
  C3. \<^verbatim>\<open>ValidateGlobalOverrides\<close> returns the error that the \<^verbatim>\<open>engine\<close> field is
  required exactly when the engine fields of the packages, as decoded (an unset one is
  the empty string, and nothing has been defaulted yet), have more than one distinct
  value and some global override has an empty engine. For a decoded document of
  version \<^verbatim>\<open>1\<close> in that case, \<^verbatim>\<open>ParseConfig\<close> returns that error. When every global
  override names its engine, \<^verbatim>\<open>ParseConfig\<close> never returns that error.
\<close>

theorem ValidateGlobalOverrides_multiple_engines:
  "ValidateGlobalOverrides c =
     (if 1 < card (PackageSettings.Engine ` set (Packages c)) \<and>
         (\<exists>ov\<in>set (GenerateSettings.Overrides c). Override.Engine ov = [])
      then Some EngineRequired else None) \<and>
   (Version c = ''1'' \<and> 1 < card (PackageSettings.Engine ` set (Packages c)) \<and>
      (\<exists>ov\<in>set (GenerateSettings.Overrides c). Override.Engine ov = []) \<longrightarrow>
      ParseConfig (c, None) = ([], Return c (Some EngineRequired))) \<and>
   ((\<forall>ov\<in>set (GenerateSettings.Overrides c). Override.Engine ov \<noteq> []) \<longrightarrow>
      (\<forall>w r. ParseConfig (c, None) \<noteq> (w, Return r (Some EngineRequired))))"
proof (intro conjI impI allI)
  show "ValidateGlobalOverrides c =
     (if 1 < card (PackageSettings.Engine ` set (Packages c)) \<and>
         (\<exists>ov\<in>set (GenerateSettings.Overrides c). Override.Engine ov = [])
      then Some EngineRequired else None)"
    by (rule ValidateGlobalOverrides_eq)
next
  assume a: "Version c = ''1'' \<and> 1 < card (PackageSettings.Engine ` set (Packages c)) \<and>
      (\<exists>ov\<in>set (GenerateSettings.Overrides c). Override.Engine ov = [])"
  then have "Packages c \<noteq> []" by auto
  moreover from a have "ValidateGlobalOverrides c = Some EngineRequired"
    by (simp add: ValidateGlobalOverrides_eq)
  ultimately show "ParseConfig (c, None) = ([], Return c (Some EngineRequired))"
    using a by (simp add: ParseConfig_def)
next
  fix w r
  assume a: "\<forall>ov\<in>set (GenerateSettings.Overrides c). Override.Engine ov \<noteq> []"
  then have v: "ValidateGlobalOverrides c = None" by (simp add: ValidateGlobalOverrides_eq)
  show "ParseConfig (c, None) \<noteq> (w, Return r (Some EngineRequired))"
  proof
    assume p: "ParseConfig (c, None) = (w, Return r (Some EngineRequired))"
    then consider
      (glob) w' os where "range_loop Parse (GenerateSettings.Overrides c) =
          (w', Return os (Some EngineRequired))"
      | (pkgs) w' ps where "range_loop parse_package (Packages c) =
          (w', Return ps (Some EngineRequired))"
      using v by (auto simp: ParseConfig_def split: if_splits prod.splits outcome.splits option.splits)
    then show False
    proof cases
      case glob
      then show False using range_loop_error_source Parse_not_EngineRequired by fast
    next
      case pkgs
      then show False using range_loop_error_source parse_package_not_EngineRequired by fast
    qed
  qed
qed

theorem ValidateGlobalOverrides_multiple_engines_witness:
  "ParseConfig (zero_GenerateSettings\<lparr>Version := ''1'',
       Packages := [zero_PackageSettings\<lparr>Path := ''a'', PackageSettings.Engine := ''mysql''\<rparr>,
                    zero_PackageSettings\<lparr>Path := ''b'', PackageSettings.Engine := ''postgresql''\<rparr>],
       GenerateSettings.Overrides := [zero_Override\<lparr>GoType := ''string'', DBType := ''uuid''\<rparr>]\<rparr>, None) =
     ([], Return (zero_GenerateSettings\<lparr>Version := ''1'',
       Packages := [zero_PackageSettings\<lparr>Path := ''a'', PackageSettings.Engine := ''mysql''\<rparr>,
                    zero_PackageSettings\<lparr>Path := ''b'', PackageSettings.Engine := ''postgresql''\<rparr>],
       GenerateSettings.Overrides := [zero_Override\<lparr>GoType := ''string'', DBType := ''uuid''\<rparr>]\<rparr>)
       (Some EngineRequired)) \<and>
   ValidateGlobalOverrides (zero_GenerateSettings\<lparr>Version := ''1'',
       Packages := [zero_PackageSettings\<lparr>Path := ''a''\<rparr>,
                    zero_PackageSettings\<lparr>Path := ''b'', PackageSettings.Engine := ''postgresql''\<rparr>],
       GenerateSettings.Overrides := [zero_Override\<lparr>GoType := ''string'', DBType := ''uuid''\<rparr>]\<rparr>) =
     Some EngineRequired \<and>
   ValidateGlobalOverrides (zero_GenerateSettings\<lparr>Version := ''1'',
       Packages := [zero_PackageSettings\<lparr>Path := ''a'', PackageSettings.Engine := ''mysql''\<rparr>,
                    zero_PackageSettings\<lparr>Path := ''b'', PackageSettings.Engine := ''postgresql''\<rparr>],
       GenerateSettings.Overrides := [zero_Override\<lparr>GoType := ''string'', DBType := ''uuid'',
                    Override.Engine := ''mysql''\<rparr>]\<rparr>) = None \<and>
   (\<forall>w r. ParseConfig (zero_GenerateSettings\<lparr>Version := ''1'',
       Packages := [zero_PackageSettings\<lparr>Path := ''a'', PackageSettings.Engine := ''mysql''\<rparr>,
                    zero_PackageSettings\<lparr>Path := ''b'', PackageSettings.Engine := ''postgresql''\<rparr>],
       GenerateSettings.Overrides := [zero_Override\<lparr>GoType := ''string'', DBType := ''uuid'',
                    Override.Engine := ''mysql''\<rparr>]\<rparr>, None) \<noteq>
       (w, Return r (Some EngineRequired)))"
  using ValidateGlobalOverrides_multiple_engines [of "zero_GenerateSettings\<lparr>Version := ''1'',
       Packages := [zero_PackageSettings\<lparr>Path := ''a'', PackageSettings.Engine := ''mysql''\<rparr>,
                    zero_PackageSettings\<lparr>Path := ''b'', PackageSettings.Engine := ''postgresql''\<rparr>],
       GenerateSettings.Overrides := [zero_Override\<lparr>GoType := ''string'', DBType := ''uuid''\<rparr>]\<rparr>"]
    ValidateGlobalOverrides_multiple_engines [of "zero_GenerateSettings\<lparr>Version := ''1'',
       Packages := [zero_PackageSettings\<lparr>Path := ''a''\<rparr>,
                    zero_PackageSettings\<lparr>Path := ''b'', PackageSettings.Engine := ''postgresql''\<rparr>],
       GenerateSettings.Overrides := [zero_Override\<lparr>GoType := ''string'', DBType := ''uuid''\<rparr>]\<rparr>"]
    ValidateGlobalOverrides_multiple_engines [of "zero_GenerateSettings\<lparr>Version := ''1'',
       Packages := [zero_PackageSettings\<lparr>Path := ''a'', PackageSettings.Engine := ''mysql''\<rparr>,
                    zero_PackageSettings\<lparr>Path := ''b'', PackageSettings.Engine := ''postgresql''\<rparr>],
       GenerateSettings.Overrides := [zero_Override\<lparr>GoType := ''string'', DBType := ''uuid'',
                    Override.Engine := ''mysql''\<rparr>]\<rparr>"]
  by (simp add: zero_GenerateSettings_def zero_PackageSettings_def zero_Override_def)

subsection \<open>The order of the checks\<close>

text \<open>
  C5. For a decoded document \<^verbatim>\<open>ParseConfig\<close> returns the first error in this order. An
  empty version gives \<^verbatim>\<open>ErrMissingVersion\<close>; a version that is not empty and not
  \<^verbatim>\<open>1\<close> gives \<^verbatim>\<open>ErrUnknownVersion\<close>; version \<^verbatim>\<open>1\<close> with no package gives
  \<^verbatim>\<open>ErrNoPackages\<close>. Past these, an error of \<^verbatim>\<open>ValidateGlobalOverrides\<close> is returned
  whatever the overrides and packages are. Past that, the error of the first global
  override that fails to parse is returned, with the packages untouched. When every
  global override parses, the error of the first package whose step fails is returned.
\<close>

theorem ParseConfig_order:
  "(Version c = [] \<longrightarrow> ParseConfig (c, None) = ([], Return c (Some ErrMissingVersion))) \<and>
   (Version c \<noteq> [] \<and> Version c \<noteq> ''1'' \<longrightarrow>
      ParseConfig (c, None) = ([], Return c (Some ErrUnknownVersion))) \<and>
   (Version c = ''1'' \<and> Packages c = [] \<longrightarrow>
      ParseConfig (c, None) = ([], Return c (Some ErrNoPackages))) \<and>
   (Version c = ''1'' \<and> Packages c \<noteq> [] \<longrightarrow>
      (\<forall>e. ValidateGlobalOverrides c = Some e \<longrightarrow>
         ParseConfig (c, None) = ([], Return c (Some e))) \<and>
      (ValidateGlobalOverrides c = None \<longrightarrow>
         (\<forall>pre ov post w r e.
            GenerateSettings.Overrides c = pre @ ov # post \<and>
            (\<forall>x\<in>set pre. \<exists>w r. Parse x = (w, Return r None)) \<and>
            Parse ov = (w, Return r (Some e)) \<longrightarrow>
            (\<exists>w' c'. ParseConfig (c, None) = (w', Return c' (Some e)) \<and>
               Packages c' = Packages c)) \<and>
         ((\<forall>x\<in>set (GenerateSettings.Overrides c). \<exists>w r. Parse x = (w, Return r None)) \<longrightarrow>
            (\<forall>pre pkg post w r e.
               Packages c = pre @ pkg # post \<and>
               (\<forall>x\<in>set pre. \<exists>w r. parse_package x = (w, Return r None)) \<and>
               parse_package pkg = (w, Return r (Some e)) \<longrightarrow>
               (\<exists>w' c'. ParseConfig (c, None) = (w', Return c' (Some e)))))))"
proof (intro conjI impI allI)
  show "ParseConfig (c, None) = ([], Return c (Some ErrMissingVersion))" if "Version c = []"
    using that by (simp add: ParseConfig_def)
  show "ParseConfig (c, None) = ([], Return c (Some ErrUnknownVersion))"
    if "Version c \<noteq> [] \<and> Version c \<noteq> ''1''"
    using that by (simp add: ParseConfig_def)
  show "ParseConfig (c, None) = ([], Return c (Some ErrNoPackages))"
    if "Version c = ''1'' \<and> Packages c = []"
    using that by (simp add: ParseConfig_def)
  show "ParseConfig (c, None) = ([], Return c (Some e))"
    if "Version c = ''1'' \<and> Packages c \<noteq> []" "ValidateGlobalOverrides c = Some e" for e
    using that by (simp add: ParseConfig_def)
next
  fix pre ov post w r e
  assume v: "Version c = ''1'' \<and> Packages c \<noteq> []" "ValidateGlobalOverrides c = None"
    and h: "GenerateSettings.Overrides c = pre @ ov # post \<and>
            (\<forall>x\<in>set pre. \<exists>w r. Parse x = (w, Return r None)) \<and>
            Parse ov = (w, Return r (Some e))"
  then obtain w' pre' where
    "range_loop Parse (GenerateSettings.Overrides c) = (w', Return (pre' @ r # post) (Some e))"
    using range_loop_first_error [of pre Parse ov w r e post] by auto
  with v have "ParseConfig (c, None) =
      (w', Return (c\<lparr>GenerateSettings.Overrides := pre' @ r # post\<rparr>) (Some e))"
    by (simp add: ParseConfig_def)
  then show "\<exists>w' c'. ParseConfig (c, None) = (w', Return c' (Some e)) \<and> Packages c' = Packages c"
    by simp
next
  fix pre pkg post w r e
  assume v: "Version c = ''1'' \<and> Packages c \<noteq> []" "ValidateGlobalOverrides c = None"
    and g: "\<forall>x\<in>set (GenerateSettings.Overrides c). \<exists>w r. Parse x = (w, Return r None)"
    and h: "Packages c = pre @ pkg # post \<and>
               (\<forall>x\<in>set pre. \<exists>w r. parse_package x = (w, Return r None)) \<and>
               parse_package pkg = (w, Return r (Some e))"
  from g obtain wg os where
    o: "range_loop Parse (GenerateSettings.Overrides c) = (wg, Return os None)"
    using range_loop_all_succeed by blast
  from h obtain w' pre' where
    "range_loop parse_package (Packages c) = (w', Return (pre' @ r # post) (Some e))"
    using range_loop_first_error [of pre parse_package pkg w r e post] by auto
  with v o show "\<exists>w' c'. ParseConfig (c, None) = (w', Return c' (Some e))"
    by (simp add: ParseConfig_def)
qed

lemma parse_package_no_path:
  "parse_package (zero_PackageSettings\<lparr>Name := n\<rparr>) =
     ([], Return (zero_PackageSettings\<lparr>Name := n\<rparr>) (Some ErrNoPackagePath))"
  by (simp add: parse_package_def zero_PackageSettings_def)

lemma Parse_zero: "Parse zero_Override = ([], Return zero_Override (Some ColumnOrDBTypeMissing))"
  by (simp add: Parse_def Parse_checks_def Parse_Deprecated_def Parse_Options_def
      and_then_def zero_Override_def)

theorem ParseConfig_order_witness:
  "ParseConfig (zero_GenerateSettings, None) =
     ([], Return zero_GenerateSettings (Some ErrMissingVersion)) \<and>
   ParseConfig (zero_GenerateSettings\<lparr>Version := ''2''\<rparr>, None) =
     ([], Return (zero_GenerateSettings\<lparr>Version := ''2''\<rparr>) (Some ErrUnknownVersion)) \<and>
   ParseConfig (zero_GenerateSettings\<lparr>Version := ''1''\<rparr>, None) =
     ([], Return (zero_GenerateSettings\<lparr>Version := ''1''\<rparr>) (Some ErrNoPackages)) \<and>
   (\<exists>w c'. ParseConfig (zero_GenerateSettings\<lparr>Version := ''1'',
        Packages := [zero_PackageSettings],
        GenerateSettings.Overrides := [zero_Override]\<rparr>, None) =
      (w, Return c' (Some ColumnOrDBTypeMissing))) \<and>
   (\<exists>w c'. ParseConfig (zero_GenerateSettings\<lparr>Version := ''1'',
        Packages := [zero_PackageSettings\<lparr>Name := ''a''\<rparr>, zero_PackageSettings\<lparr>Name := ''b''\<rparr>]\<rparr>,
        None) = (w, Return c' (Some ErrNoPackagePath)))"
proof -
  let ?c1 = "zero_GenerateSettings\<lparr>Version := ''1'', Packages := [zero_PackageSettings],
        GenerateSettings.Overrides := [zero_Override]\<rparr>"
  let ?c2 = "zero_GenerateSettings\<lparr>Version := ''1'',
        Packages := [zero_PackageSettings\<lparr>Name := ''a''\<rparr>, zero_PackageSettings\<lparr>Name := ''b''\<rparr>]\<rparr>"
  have v1: "ValidateGlobalOverrides ?c1 = None" and v2: "ValidateGlobalOverrides ?c2 = None"
    by (simp_all add: ValidateGlobalOverrides_eq zero_GenerateSettings_def zero_PackageSettings_def)
  have o: "GenerateSettings.Overrides ?c1 = [] @ zero_Override # []"
    by (simp add: zero_GenerateSettings_def)
  have p: "Packages ?c2 = [] @ zero_PackageSettings\<lparr>Name := ''a''\<rparr> #
      [zero_PackageSettings\<lparr>Name := ''b''\<rparr>]"
    by (simp add: zero_GenerateSettings_def)
  have s1: "Version ?c1 = ''1'' \<and> Packages ?c1 \<noteq> []"
    and s2: "Version ?c2 = ''1'' \<and> Packages ?c2 \<noteq> []"
    by (simp_all add: zero_GenerateSettings_def)
  note t1 = ParseConfig_order [of ?c1, THEN conjunct2, THEN conjunct2, THEN conjunct2,
      THEN mp, OF s1, THEN conjunct2, THEN mp, OF v1, THEN conjunct1, rule_format]
  note t2 = ParseConfig_order [of ?c2, THEN conjunct2, THEN conjunct2, THEN conjunct2,
      THEN mp, OF s2, THEN conjunct2, THEN mp, OF v2, THEN conjunct2, rule_format]
  have "\<exists>w c'. ParseConfig (?c1, None) = (w, Return c' (Some ColumnOrDBTypeMissing)) \<and>
      Packages c' = Packages ?c1"
    by (rule t1 [of "[]" zero_Override "[]" "[]" zero_Override]) (simp add: o Parse_zero)
  then have a: "\<exists>w c'. ParseConfig (?c1, None) = (w, Return c' (Some ColumnOrDBTypeMissing))"
    by blast
  have b: "\<exists>w c'. ParseConfig (?c2, None) = (w, Return c' (Some ErrNoPackagePath))"
  proof (rule t2 [of "[]" "zero_PackageSettings\<lparr>Name := ''a''\<rparr>"
        "[zero_PackageSettings\<lparr>Name := ''b''\<rparr>]" "[]" "zero_PackageSettings\<lparr>Name := ''a''\<rparr>"])
    show "\<exists>w r. Parse x = (w, Return r None)"
      if "x \<in> set (GenerateSettings.Overrides ?c2)" for x
      using that by (simp add: zero_GenerateSettings_def)
    show "Packages ?c2 = [] @ zero_PackageSettings\<lparr>Name := ''a''\<rparr> #
        [zero_PackageSettings\<lparr>Name := ''b''\<rparr>] \<and>
      (\<forall>x\<in>set []. \<exists>w r. parse_package x = (w, Return r None)) \<and>
      parse_package (zero_PackageSettings\<lparr>Name := ''a''\<rparr>) =
        ([], Return (zero_PackageSettings\<lparr>Name := ''a''\<rparr>) (Some ErrNoPackagePath))"
      using p parse_package_no_path [of "''a''"] by simp
  qed
  show ?thesis
    using ParseConfig_order [of zero_GenerateSettings]
      ParseConfig_order [of "zero_GenerateSettings\<lparr>Version := ''2''\<rparr>"]
      ParseConfig_order [of "zero_GenerateSettings\<lparr>Version := ''1''\<rparr>"] a b
    by (simp add: zero_GenerateSettings_def)
qed

subsection \<open>The packages\<close>

text \<open>
  The loop of \<open>Base\<close> that looks for the last separator finds what \<open>LastIndex\<close>
  finds, so for a path that does not end in a separator \<open>Base\<close> is what follows the
  last separator, and the whole path when there is none.
\<close>

lemma LastIndex_snoc:
  "LastIndex (xs @ [x]) c = (if x = c then int (length xs) else LastIndex xs c)"
proof (induction xs)
  case Nil
  then show ?case by simp
next
  case (Cons a xs)
  then show ?case using LastIndex_lower [of xs c] by (auto simp: Let_def)
qed

lemma last_separator_prefix:
  "n \<le> length p \<Longrightarrow> last_separator p (int n - 1) = LastIndex (take n p) CHR ''/''"
proof (induction n)
  case 0
  then show ?case by (subst last_separator.simps) simp
next
  case (Suc n)
  then have t: "take (Suc n) p = take n p @ [p ! n]" by (simp add: take_Suc_conv_app_nth)
  have "last_separator p (int (Suc n) - 1) =
      (if p ! n \<noteq> CHR ''/'' then last_separator p (int n - 1) else int n)"
    by (subst last_separator.simps) simp
  with Suc show ?case by (simp add: t LastIndex_snoc)
qed

lemma last_separator_LastIndex:
  "last_separator p (int (length p) - 1) = LastIndex p CHR ''/''"
  using last_separator_prefix [of "length p" p] by simp

lemma Base_final_segment:
  assumes "path \<noteq> []" and "last path \<noteq> CHR ''/''"
  shows "Base path = drop (nat (LastIndex path CHR ''/'' + 1)) path"
proof -
  let ?i = "LastIndex path CHR ''/''"
  have s: "strip_trailing path = path" using assms by (subst strip_trailing.simps) simp
  have "path ! nat ?i = CHR ''/''" if "?i \<noteq> - 1" using that by (rule LastIndex_nth)
  moreover have "path ! (length path - 1) \<noteq> CHR ''/''"
    using assms by (simp add: last_conv_nth)
  ultimately have "nat ?i \<noteq> length path - 1" if "?i \<noteq> - 1" using that by metis
  moreover have "?i < int (length path)" by (rule LastIndex_upper)
  moreover have "- 1 \<le> ?i" by (rule LastIndex_lower)
  ultimately have "nat (?i + 1) < length path" using assms(1)
    by (cases "?i = - 1") (auto simp: nat_less_iff)
  then have "drop (nat (?i + 1)) path \<noteq> []" by simp
  moreover have "(if 0 \<le> ?i then drop (nat (?i + 1)) path else path) = drop (nat (?i + 1)) path"
    using \<open>- 1 \<le> ?i\<close> by (cases "0 \<le> ?i") auto
  ultimately show ?thesis
    using assms(1) by (simp add: Base_def s last_separator_LastIndex Let_def)
qed

lemma Base_example: "Base ''internal/gen'' = ''gen''"
  by (simp add: Base_final_segment)

text \<open>
  For every path: \<open>Base\<close> drops the slashes at the end and keeps what follows the
  last slash that is left.
\<close>

lemma strip_trailing_eq:
  "strip_trailing p = rev (dropWhile (\<lambda>c. c = CHR ''/'') (rev p))"
proof (induction p rule: strip_trailing.induct)
  case (1 p)
  show ?case
  proof (cases "p \<noteq> [] \<and> last p = CHR ''/''")
    case True
    then have "butlast p @ [CHR ''/''] = p"
      using append_butlast_last_id [of p] by simp
    then have "rev (butlast p @ [CHR ''/'']) = rev p" by (rule arg_cong)
    then have r: "rev p = CHR ''/'' # rev (butlast p)" by simp
    have "strip_trailing p = strip_trailing (butlast p)"
      using True by (subst strip_trailing.simps) simp
    also have "\<dots> = rev (dropWhile (\<lambda>c. c = CHR ''/'') (rev (butlast p)))"
      using True "1.IH" by simp
    finally show ?thesis by (simp add: r)
  next
    case False
    then have s: "strip_trailing p = p" by (subst strip_trailing.simps) auto
    show ?thesis
    proof (cases "p = []")
      case True
      with s show ?thesis by simp
    next
      case ne: False
      with False have "last p \<noteq> CHR ''/''" by simp
      then have "hd (rev p) \<noteq> CHR ''/''" using ne by (simp add: hd_rev)
      then have "dropWhile (\<lambda>c. c = CHR ''/'') (rev p) = rev p"
        using ne by (cases "rev p") auto
      with s show ?thesis by simp
    qed
  qed
qed

lemma drop_LastIndex:
  "drop (nat (LastIndex s c + 1)) s = rev (takeWhile (\<lambda>x. x \<noteq> c) (rev s))"
proof (induction s rule: rev_induct)
  case Nil
  then show ?case by simp
next
  case (snoc x xs)
  show ?case
  proof (cases "x = c")
    case True
    then show ?thesis by (simp add: LastIndex_snoc)
  next
    case False
    have "nat (LastIndex xs c + 1) \<le> length xs"
      using LastIndex_upper [of xs c] LastIndex_lower [of xs c] by linarith
    with False snoc show ?thesis by (simp add: LastIndex_snoc)
  qed
qed

lemma Base_stripped:
  assumes "path \<noteq> []"
  shows "Base path =
     (if strip_trailing path = [] then ''/''
      else rev (takeWhile (\<lambda>c. c \<noteq> CHR ''/'') (rev (strip_trailing path))))"
proof -
  define q where "q = strip_trailing path"
  define i where "i = LastIndex q CHR ''/''"
  have b: "Base path =
      (if (if 0 \<le> i then drop (nat (i + 1)) q else q) = [] then ''/''
       else (if 0 \<le> i then drop (nat (i + 1)) q else q))"
    using assms by (simp add: Base_def last_separator_LastIndex Let_def q_def i_def)
  have d: "(if 0 \<le> i then drop (nat (i + 1)) q else q) = drop (nat (i + 1)) q"
    using LastIndex_lower [of q "CHR ''/''"] by (cases "0 \<le> i") (auto simp: i_def)
  have t: "drop (nat (i + 1)) q = rev (takeWhile (\<lambda>c. c \<noteq> CHR ''/'') (rev q))"
    unfolding i_def by (rule drop_LastIndex)
  note dt = trans [OF d t]
  have e: "Base path =
      (if rev (takeWhile (\<lambda>c. c \<noteq> CHR ''/'') (rev q)) = [] then ''/''
       else rev (takeWhile (\<lambda>c. c \<noteq> CHR ''/'') (rev q)))"
    using b by (simp only: dt)
  show ?thesis
  proof (cases "q = []")
    case True
    with e show ?thesis by (simp add: q_def)
  next
    case False
    have rq: "rev q = dropWhile (\<lambda>c. c = CHR ''/'') (rev path)"
      by (simp add: q_def strip_trailing_eq)
    have "dropWhile (\<lambda>c. c = CHR ''/'') (rev path) \<noteq> []"
      unfolding rq [symmetric] using False by simp
    then have "\<not> hd (dropWhile (\<lambda>c. c = CHR ''/'') (rev path)) = CHR ''/''"
      by (rule hd_dropWhile)
    then have "hd (rev q) \<noteq> CHR ''/''" unfolding rq .
    then have "takeWhile (\<lambda>c. c \<noteq> CHR ''/'') (rev q) \<noteq> []"
      using False by (cases "rev q") auto
    with e False show ?thesis by (simp add: q_def)
  qed
qed

lemma Base_eq:
  "Base path =
     (if path = [] then ''.''
      else if dropWhile (\<lambda>c. c = CHR ''/'') (rev path) = [] then ''/''
      else rev (takeWhile (\<lambda>c. c \<noteq> CHR ''/'') (dropWhile (\<lambda>c. c = CHR ''/'') (rev path))))"
proof (cases "path = []")
  case True
  then show ?thesis by (simp add: Base_def)
next
  case False
  define r where "r = dropWhile (\<lambda>c. c = CHR ''/'') (rev path)"
  have q: "strip_trailing path = rev r" unfolding r_def by (rule strip_trailing_eq)
  have "Base path = (if r = [] then ''/'' else rev (takeWhile (\<lambda>c. c \<noteq> CHR ''/'') r))"
    using Base_stripped [OF False] unfolding q by simp
  then show ?thesis using False unfolding r_def by (simp only: if_False)
qed


lemma Base_only_slashes:
  assumes "path \<noteq> []" and "\<forall>c\<in>set path. c = CHR ''/''"
  shows "Base path = ''/''"
  using assms by (simp add: Base_eq)

lemma Base_decompose:
  assumes "\<exists>c\<in>set path. c \<noteq> CHR ''/''"
  shows "\<exists>pre k. path = pre @ Base path @ replicate k CHR ''/'' \<and> Base path \<noteq> [] \<and>
     CHR ''/'' \<notin> set (Base path) \<and> (pre = [] \<or> last pre = CHR ''/'')"
proof -
  define sl where "sl = takeWhile (\<lambda>c. c = CHR ''/'') (rev path)"
  define r where "r = dropWhile (\<lambda>c. c = CHR ''/'') (rev path)"
  define t where "t = takeWhile (\<lambda>c. c \<noteq> CHR ''/'') r"
  define u where "u = dropWhile (\<lambda>c. c \<noteq> CHR ''/'') r"
  from assms have ne: "path \<noteq> []" by auto
  from assms have r: "r \<noteq> []" by (auto simp: r_def dropWhile_eq_Nil_conv)
  then have "\<not> hd r = CHR ''/''" unfolding r_def by (rule hd_dropWhile)
  then have t: "t \<noteq> []" using r by (cases r) (auto simp: t_def)
  have b: "Base path = rev t"
    using ne r by (simp only: Base_eq r_def [symmetric] t_def [symmetric] if_False)
  have "rev path = sl @ r" by (simp add: sl_def r_def)
  moreover have "r = t @ u" by (simp add: t_def u_def)
  ultimately have "rev path = sl @ t @ u" by simp
  then have "rev (rev path) = rev (sl @ t @ u)" by (rule arg_cong)
  then have p: "path = rev u @ rev t @ rev sl" by simp
  have "\<forall>x\<in>set (rev sl). x = CHR ''/''" by (auto simp: sl_def dest: set_takeWhileD)
  then have "replicate (length (rev sl)) CHR ''/'' = rev sl"
    by (intro replicate_length_same) simp
  with p b have d: "path = rev u @ Base path @ replicate (length (rev sl)) CHR ''/''"
    by simp
  have n: "CHR ''/'' \<notin> set (Base path)" by (auto simp: b t_def dest: set_takeWhileD)
  have l: "rev u = [] \<or> last (rev u) = CHR ''/''"
  proof (cases "u = []")
    case True
    then show ?thesis by simp
  next
    case False
    then have "\<not> hd u \<noteq> CHR ''/''" unfolding u_def by (rule hd_dropWhile)
    with False show ?thesis by (simp add: last_rev)
  qed
  from t b have "Base path \<noteq> []" by simp
  with d n l show ?thesis by blast
qed

lemma Base_examples:
  "Base ''internal/gen/'' = ''gen''" "Base ''/'' = ''/''" "Base [] = ''.''"
  by (simp_all add: Base_eq)

lemma parse_package_success:
  assumes "parse_package pkg = (w, Return pkg' None)"
  shows "Path pkg \<noteq> [] \<and> Path pkg' = Path pkg \<and>
     Name pkg' = (if Name pkg = [] then Base (Path pkg) else Name pkg) \<and>
     PackageSettings.Engine pkg' =
       (if PackageSettings.Engine pkg = [] then EnginePostgreSQL else PackageSettings.Engine pkg)"
  using assms
  by (auto simp: parse_package_def Let_def split: if_splits prod.splits outcome.splits option.splits)


lemma ParseConfig_success:
  assumes "ParseConfig (c, None) = (w, Return c' None)"
  shows "list_all2 (\<lambda>x y. \<exists>w'. parse_package x = (w', Return y None)) (Packages c) (Packages c')"
proof -
  from assms obtain w' ps where
    "range_loop parse_package (Packages c) = (w', Return ps None)" and "Packages c' = ps"
    by (auto simp: ParseConfig_def split: if_splits prod.splits outcome.splits option.splits)
  then show ?thesis using range_loop_success by fastforce
qed

text \<open>
  C7. When \<^verbatim>\<open>ParseConfig\<close> returns no error for a decoded document, the packages are
  as many as before, and for each of them: the path was not empty and is unchanged, the
  name is the given one, or \<open>Base\<close> of the path when none was given, and the engine is
  the given one, or \<^verbatim>\<open>EnginePostgreSQL\<close> when none was given. When the checks before the
  packages pass and the first package whose step fails has an empty path,
  \<^verbatim>\<open>ParseConfig\<close> returns \<^verbatim>\<open>ErrNoPackagePath\<close>. \<open>Base\<close> is the final segment of the
  path, for every path: the slashes at the end are dropped and what follows the last
  slash that is left is kept, so that a path with a character other than the slash is
  some prefix that is empty or ends in a slash, then \<open>Base\<close> of the path, which is not
  empty and has no slash, then slashes only; a path of slashes only gives \<^verbatim>\<open>/\<close>, and
  the empty path \<^verbatim>\<open>.\<close>. For a path that does not end in a slash this is what follows
  its last slash. Of \<^verbatim>\<open>internal/gen\<close> and of \<^verbatim>\<open>internal/gen/\<close> it is \<^verbatim>\<open>gen\<close>.
  \<^verbatim>\<open>EnginePostgreSQL\<close> is \<^verbatim>\<open>postgresql\<close>.
\<close>

theorem ParseConfig_packages:
  "(\<forall>w c'. ParseConfig (c, None) = (w, Return c' None) \<longrightarrow>
      length (Packages c') = length (Packages c) \<and>
      (\<forall>j<length (Packages c).
         Path (Packages c ! j) \<noteq> [] \<and>
         Path (Packages c' ! j) = Path (Packages c ! j) \<and>
         Name (Packages c' ! j) =
           (if Name (Packages c ! j) = [] then Base (Path (Packages c ! j))
            else Name (Packages c ! j)) \<and>
         PackageSettings.Engine (Packages c' ! j) =
           (if PackageSettings.Engine (Packages c ! j) = [] then EnginePostgreSQL
            else PackageSettings.Engine (Packages c ! j)))) \<and>
   (Version c = ''1'' \<and> ValidateGlobalOverrides c = None \<and>
    (\<forall>x\<in>set (GenerateSettings.Overrides c). \<exists>w r. Parse x = (w, Return r None)) \<and>
    Packages c = pre @ pkg # post \<and>
    (\<forall>x\<in>set pre. \<exists>w r. parse_package x = (w, Return r None)) \<and> Path pkg = [] \<longrightarrow>
      (\<exists>w c'. ParseConfig (c, None) = (w, Return c' (Some ErrNoPackagePath)))) \<and>
   (\<forall>path. path \<noteq> [] \<and> last path \<noteq> CHR ''/'' \<longrightarrow>
      Base path = drop (nat (LastIndex path CHR ''/'' + 1)) path) \<and>
   (\<forall>path. Base path =
      (if path = [] then ''.''
       else if dropWhile (\<lambda>c. c = CHR ''/'') (rev path) = [] then ''/''
       else rev (takeWhile (\<lambda>c. c \<noteq> CHR ''/'')
                   (dropWhile (\<lambda>c. c = CHR ''/'') (rev path))))) \<and>
   (\<forall>path. (\<exists>c\<in>set path. c \<noteq> CHR ''/'') \<longrightarrow>
      (\<exists>pre k. path = pre @ Base path @ replicate k CHR ''/'' \<and> Base path \<noteq> [] \<and>
         CHR ''/'' \<notin> set (Base path) \<and> (pre = [] \<or> last pre = CHR ''/''))) \<and>
   (\<forall>path. path \<noteq> [] \<and> (\<forall>c\<in>set path. c = CHR ''/'') \<longrightarrow> Base path = ''/'') \<and>
   Base ''internal/gen'' = ''gen'' \<and> Base ''internal/gen/'' = ''gen'' \<and>
   EnginePostgreSQL = ''postgresql''"
proof (intro conjI impI allI)
  fix w c'
  assume "ParseConfig (c, None) = (w, Return c' None)"
  then have l: "list_all2 (\<lambda>x y. \<exists>w'. parse_package x = (w', Return y None))
      (Packages c) (Packages c')"
    by (rule ParseConfig_success)
  then show "length (Packages c') = length (Packages c)"
    by (simp add: list_all2_lengthD)
  fix j
  assume j: "j < length (Packages c)"
  from list_all2_nthD [OF l j] obtain w' where
    p: "parse_package (Packages c ! j) = (w', Return (Packages c' ! j) None)"
    by blast
  note f = parse_package_success [OF p]
  from f show "Path (Packages c ! j) \<noteq> []" by simp
  from f show "Path (Packages c' ! j) = Path (Packages c ! j)" by simp
  from f show "Name (Packages c' ! j) =
      (if Name (Packages c ! j) = [] then Base (Path (Packages c ! j))
       else Name (Packages c ! j))" by simp
  from f show "PackageSettings.Engine (Packages c' ! j) =
      (if PackageSettings.Engine (Packages c ! j) = [] then EnginePostgreSQL
       else PackageSettings.Engine (Packages c ! j))" by simp
next
  assume a: "Version c = ''1'' \<and> ValidateGlobalOverrides c = None \<and>
    (\<forall>x\<in>set (GenerateSettings.Overrides c). \<exists>w r. Parse x = (w, Return r None)) \<and>
    Packages c = pre @ pkg # post \<and>
    (\<forall>x\<in>set pre. \<exists>w r. parse_package x = (w, Return r None)) \<and> Path pkg = []"
  then obtain wg os where
    o: "range_loop Parse (GenerateSettings.Overrides c) = (wg, Return os None)"
    using range_loop_all_succeed [of "GenerateSettings.Overrides c" Parse] by blast
  from a have "parse_package pkg = ([], Return pkg (Some ErrNoPackagePath))"
    by (simp add: parse_package_def)
  with a obtain w' pre' where
    "range_loop parse_package (Packages c) =
       (w', Return (pre' @ pkg # post) (Some ErrNoPackagePath))"
    using range_loop_first_error [of pre parse_package pkg "[]" pkg ErrNoPackagePath post]
    by auto
  with a o show "\<exists>w c'. ParseConfig (c, None) = (w, Return c' (Some ErrNoPackagePath))"
    by (simp add: ParseConfig_def)
next
  fix path
  assume "path \<noteq> [] \<and> last path \<noteq> CHR ''/''"
  then show "Base path = drop (nat (LastIndex path CHR ''/'' + 1)) path"
    by (simp add: Base_final_segment)
next
  fix path
  show "Base path =
      (if path = [] then ''.''
       else if dropWhile (\<lambda>c. c = CHR ''/'') (rev path) = [] then ''/''
       else rev (takeWhile (\<lambda>c. c \<noteq> CHR ''/'')
                   (dropWhile (\<lambda>c. c = CHR ''/'') (rev path))))"
    by (rule Base_eq)
next
  fix path
  assume "\<exists>c\<in>set path. c \<noteq> CHR ''/''"
  then show "\<exists>pre k. path = pre @ Base path @ replicate k CHR ''/'' \<and> Base path \<noteq> [] \<and>
         CHR ''/'' \<notin> set (Base path) \<and> (pre = [] \<or> last pre = CHR ''/'')"
    by (rule Base_decompose)
next
  fix path
  assume "path \<noteq> [] \<and> (\<forall>c\<in>set path. c = CHR ''/'')"
  then show "Base path = ''/''" by (simp add: Base_only_slashes)
next
  show "Base ''internal/gen'' = ''gen''" by (rule Base_example)
  show "Base ''internal/gen/'' = ''gen''" by (rule Base_examples)
  show "EnginePostgreSQL = ''postgresql''" by (simp add: EnginePostgreSQL_def)
qed

lemma ParseConfig_example:
  "ParseConfig (zero_GenerateSettings\<lparr>Version := ''1'',
       Packages := [zero_PackageSettings\<lparr>Path := ''internal/gen''\<rparr>]\<rparr>, None) =
     ([], Return (zero_GenerateSettings\<lparr>Version := ''1'',
       Packages := [zero_PackageSettings\<lparr>Path := ''internal/gen'', Name := ''gen'',
                      PackageSettings.Engine := ''postgresql''\<rparr>]\<rparr>) None)"
  by (simp add: ParseConfig_def ValidateGlobalOverrides_eq parse_package_def Base_example
      EnginePostgreSQL_def zero_GenerateSettings_def zero_PackageSettings_def)

lemma ParseConfig_example_trailing:
  "ParseConfig (zero_GenerateSettings\<lparr>Version := ''1'',
       Packages := [zero_PackageSettings\<lparr>Path := ''internal/gen/''\<rparr>]\<rparr>, None) =
     ([], Return (zero_GenerateSettings\<lparr>Version := ''1'',
       Packages := [zero_PackageSettings\<lparr>Path := ''internal/gen/'', Name := ''gen'',
                      PackageSettings.Engine := ''postgresql''\<rparr>]\<rparr>) None)"
  by (simp add: ParseConfig_def ValidateGlobalOverrides_eq parse_package_def Base_examples
      EnginePostgreSQL_def zero_GenerateSettings_def zero_PackageSettings_def)

theorem ParseConfig_packages_witness:
  "(\<exists>w c'. ParseConfig (zero_GenerateSettings\<lparr>Version := ''1'',
        Packages := [zero_PackageSettings\<lparr>Path := ''internal/gen''\<rparr>]\<rparr>, None) =
      (w, Return c' None) \<and>
      Name (Packages c' ! 0) = ''gen'' \<and>
      PackageSettings.Engine (Packages c' ! 0) = ''postgresql'') \<and>
   (\<exists>w c'. ParseConfig (zero_GenerateSettings\<lparr>Version := ''1'',
        Packages := [zero_PackageSettings\<lparr>Path := ''internal/gen/''\<rparr>]\<rparr>, None) =
      (w, Return c' None) \<and>
      Name (Packages c' ! 0) = ''gen'' \<and>
      PackageSettings.Engine (Packages c' ! 0) = ''postgresql'') \<and>
   (\<exists>w c'. ParseConfig (zero_GenerateSettings\<lparr>Version := ''1'',
        Packages := [zero_PackageSettings\<lparr>Name := ''a''\<rparr>]\<rparr>, None) =
      (w, Return c' (Some ErrNoPackagePath)))"
proof (intro conjI)
  let ?c = "zero_GenerateSettings\<lparr>Version := ''1'',
        Packages := [zero_PackageSettings\<lparr>Path := ''internal/gen/''\<rparr>]\<rparr>"
  let ?c' = "zero_GenerateSettings\<lparr>Version := ''1'',
       Packages := [zero_PackageSettings\<lparr>Path := ''internal/gen/'', Name := ''gen'',
                      PackageSettings.Engine := ''postgresql''\<rparr>]\<rparr>"
  note t = ParseConfig_packages [of ?c, THEN conjunct1, rule_format,
      OF ParseConfig_example_trailing, THEN conjunct2, rule_format, of 0]
  have "Name (Packages ?c' ! 0) = ''gen'' \<and>
      PackageSettings.Engine (Packages ?c' ! 0) = ''postgresql''"
    using t ParseConfig_packages [of ?c]
    by (simp add: zero_GenerateSettings_def zero_PackageSettings_def)
  then show "\<exists>w c'. ParseConfig (?c, None) = (w, Return c' None) \<and>
      Name (Packages c' ! 0) = ''gen'' \<and>
      PackageSettings.Engine (Packages c' ! 0) = ''postgresql''"
    using ParseConfig_example_trailing by blast
next
  let ?c = "zero_GenerateSettings\<lparr>Version := ''1'',
        Packages := [zero_PackageSettings\<lparr>Path := ''internal/gen''\<rparr>]\<rparr>"
  let ?c' = "zero_GenerateSettings\<lparr>Version := ''1'',
       Packages := [zero_PackageSettings\<lparr>Path := ''internal/gen'', Name := ''gen'',
                      PackageSettings.Engine := ''postgresql''\<rparr>]\<rparr>"
  note t = ParseConfig_packages [of ?c, THEN conjunct1, rule_format, OF ParseConfig_example,
      THEN conjunct2, rule_format, of 0]
  have "Name (Packages ?c' ! 0) = ''gen'' \<and>
      PackageSettings.Engine (Packages ?c' ! 0) = ''postgresql''"
    using t ParseConfig_packages [of ?c]
    by (simp add: zero_GenerateSettings_def zero_PackageSettings_def)
  then show "\<exists>w c'. ParseConfig (?c, None) = (w, Return c' None) \<and>
      Name (Packages c' ! 0) = ''gen'' \<and>
      PackageSettings.Engine (Packages c' ! 0) = ''postgresql''"
    using ParseConfig_example by blast
next
  let ?d = "zero_GenerateSettings\<lparr>Version := ''1'',
        Packages := [zero_PackageSettings\<lparr>Name := ''a''\<rparr>]\<rparr>"
  note u = ParseConfig_packages [of ?d "[]" "zero_PackageSettings\<lparr>Name := ''a''\<rparr>" "[]",
      THEN conjunct2, THEN conjunct1, rule_format]
  show "\<exists>w c'. ParseConfig (?d, None) = (w, Return c' (Some ErrNoPackagePath))"
    by (rule u)
      (simp add: ValidateGlobalOverrides_eq zero_GenerateSettings_def zero_PackageSettings_def)
qed

subsection \<open>\<^verbatim>\<open>Combine\<close>\<close>

text \<open>
  C9. For all settings and all package settings, validated or not, the overrides of
  \<^verbatim>\<open>Combine\<close> are the global overrides followed by those of the package: as many as
  both together, the first of them the global ones in their order, the rest those of the
  package in their order. The fields \<^verbatim>\<open>Global\<close> and \<^verbatim>\<open>Package\<close> are the two arguments.
\<close>

theorem Combine_overrides:
  "CombinedSettings.Overrides (Combine gen pkg) =
     GenerateSettings.Overrides gen @ PackageSettings.Overrides pkg \<and>
   length (CombinedSettings.Overrides (Combine gen pkg)) =
     length (GenerateSettings.Overrides gen) + length (PackageSettings.Overrides pkg) \<and>
   take (length (GenerateSettings.Overrides gen)) (CombinedSettings.Overrides (Combine gen pkg)) =
     GenerateSettings.Overrides gen \<and>
   drop (length (GenerateSettings.Overrides gen)) (CombinedSettings.Overrides (Combine gen pkg)) =
     PackageSettings.Overrides pkg \<and>
   Global (Combine gen pkg) = gen \<and> Package (Combine gen pkg) = pkg"
  by (simp add: Combine_def)

theorem Combine_overrides_witness:
  "CombinedSettings.Overrides
     (Combine (zero_GenerateSettings\<lparr>GenerateSettings.Overrides :=
                 [zero_Override\<lparr>DBType := ''a''\<rparr>, zero_Override\<lparr>DBType := ''b''\<rparr>]\<rparr>)
        (zero_PackageSettings\<lparr>PackageSettings.Overrides := [zero_Override\<lparr>DBType := ''c''\<rparr>]\<rparr>)) =
     [zero_Override\<lparr>DBType := ''a''\<rparr>, zero_Override\<lparr>DBType := ''b''\<rparr>,
      zero_Override\<lparr>DBType := ''c''\<rparr>]"
  using Combine_overrides [of "zero_GenerateSettings\<lparr>GenerateSettings.Overrides :=
                 [zero_Override\<lparr>DBType := ''a''\<rparr>, zero_Override\<lparr>DBType := ''b''\<rparr>]\<rparr>"
      "zero_PackageSettings\<lparr>PackageSettings.Overrides := [zero_Override\<lparr>DBType := ''c''\<rparr>]\<rparr>"]
  by (simp add: zero_GenerateSettings_def zero_PackageSettings_def)

end
